theory Spec2Isabelle
  imports Main
begin

section \<open>API objects read and built by the end-to-end tests\<close>

text \<open>
  The tests of \<^verbatim>\<open>test/e2e/basic_test.go\<close> work on three families of Kubernetes
  objects: the pod they submit (\<^verbatim>\<open>v1.Pod\<close>), the environment entries they put into
  its first container (\<^verbatim>\<open>v1.EnvVar\<close>), and the summary the kubelet's
  \<^verbatim>\<open>/stats/summary\<close> endpoint answers with (\<^verbatim>\<open>v1alpha1.Summary\<close>). Only the fields
  the tests touch are kept. A Go pointer is an \<open>option\<close>: \<open>None\<close> is \<^verbatim>\<open>nil\<close>.
\<close>

record ConfigMapKeySelector =
  cm_LocalObjectReference :: string
  cm_Key :: string
  cm_Optional :: "bool option"

record SecretKeySelector =
  sec_LocalObjectReference :: string
  sec_Key :: string
  sec_Optional :: "bool option"

record EnvVarSource =
  ConfigMapKeyRef :: "ConfigMapKeySelector option"
  SecretKeyRef :: "SecretKeySelector option"

record EnvVar =
  env_Name :: string
  ValueFrom :: "EnvVarSource option"

record Container =
  container_Name :: string
  Env :: "EnvVar list"

record PodSpec =
  Containers :: "Container list"

text \<open>\<^verbatim>\<open>v1.Pod\<close> embeds its \<^verbatim>\<open>ObjectMeta\<close>, so the tests read \<^verbatim>\<open>pod.Namespace\<close>,
  \<^verbatim>\<open>pod.Name\<close> and \<^verbatim>\<open>pod.UID\<close> directly.\<close>

record Pod =
  Namespace :: string
  Name :: string
  UID :: string
  Spec :: PodSpec

record PodReference =
  ref_Name :: string
  ref_Namespace :: string
  ref_UID :: string

record ContainerStats =
  cstats_Name :: string

record PodStats =
  PodRef :: PodReference
  stats_Containers :: "ContainerStats list"

record NodeStats =
  NodeName :: string

record Summary =
  Node :: NodeStats
  Pods :: "PodStats list"

section \<open>Errors\<close>

text \<open>
  A Go \<^verbatim>\<open>error\<close> is a value. The tests tell two kinds apart: an API status error,
  whose reason \<^verbatim>\<open>apierrors.IsNotFound\<close> inspects, and a plain message such as
  \<^verbatim>\<open>fmt.Errorf\<close> builds. A \<^verbatim>\<open>nil\<close> error is \<open>None\<close> of \<open>error option\<close>.
\<close>

datatype StatusReason = StatusReasonNotFound | StatusReasonOther string

datatype error = StatusError StatusReason string | errorString string

fun IsNotFound :: "error \<Rightarrow> bool" where
  "IsNotFound (StatusError r m) = (r = StatusReasonNotFound)"
| "IsNotFound (errorString m) = False"

text \<open>What a Go call ends with when it does not go through \<^verbatim>\<open>testing.T\<close>: it returns,
  or it panics (here always a nil pointer dereference).\<close>

datatype 'a completion = Returns 'a | Panics

section \<open>The stats correlator\<close>

text \<open>The condition of the \<^verbatim>\<open>if\<close> inside the loop of \<^verbatim>\<open>findPodInPodStats\<close>.\<close>

definition podMatches :: "PodStats \<Rightarrow> Pod \<Rightarrow> bool" where
  "podMatches p pod \<longleftrightarrow>
     ref_Namespace (PodRef p) = Namespace pod \<and>
     ref_Name (PodRef p) = Name pod \<and>
     ref_UID (PodRef p) = UID pod"

text \<open>\<^verbatim>\<open>fmt.Errorf("failed to find pod \"%s/%s\" in the slice of pod stats", ...)\<close>\<close>

definition notFoundInStats :: "Pod \<Rightarrow> error" where
  "notFoundInStats pod =
     errorString (''failed to find pod '' @ [CHR 0x22] @ Namespace pod @ ''/'' @ Name pod @
       [CHR 0x22] @ '' in the slice of pod stats'')"

text \<open>
  \<^verbatim>\<open>for i, p := range summary.Pods\<close>: the first argument is the index \<^verbatim>\<open>i\<close> of the head
  of the remaining slice. The index of a slice element fits Go's \<^verbatim>\<open>int\<close>, so no
  wrap-around is involved.
\<close>

fun rangePods :: "int \<Rightarrow> PodStats list \<Rightarrow> Pod \<Rightarrow> int \<times> error option" where
  "rangePods i [] pod = (- 1, Some (notFoundInStats pod))"
| "rangePods i (p # ps) pod =
     (if podMatches p pod then (i, None) else rangePods (i + 1) ps pod)"

text \<open>
  Both arguments are pointers. \<^verbatim>\<open>summary.Pods\<close> dereferences the first before the loop;
  the second is dereferenced by the first comparison, or by the error message when the
  loop ends without a match, so a nil pod panics on every path.
\<close>

definition findPodInPodStats ::
  "Summary option \<Rightarrow> Pod option \<Rightarrow> (int \<times> error option) completion" where
  "findPodInPodStats summary pod =
     (case summary of
        None \<Rightarrow> Panics
      | Some s \<Rightarrow>
          (case pod of
             None \<Rightarrow> Panics
           | Some p \<Rightarrow> Returns (rangePods 0 (Pods s) p)))"

section \<open>The framework the tests drive\<close>

text \<open>
  The tests call the methods of a process-wide \<^verbatim>\<open>*Framework\<close> value \<^verbatim>\<open>f\<close>, which
  talks to the API server and to the kubelet under test. Its methods are outside the
  files verified here (only \<^verbatim>\<open>CreatePodWith...\<close> below are inside), so the
  framework is a parameter: a record of operations on an abstract world \<open>'w\<close> (the
  cluster, the provider, the random source of names). Each operation returns what the Go
  method returns, together with the world after the call. A call is assumed to return
  (the waits have a timeout of their own).
\<close>

record 'w Framework =
  fw_NodeName :: string
  CreateDummyPodObjectWithPrefix :: "string \<Rightarrow> string list \<Rightarrow> 'w \<Rightarrow> Pod option \<times> 'w"
  CreatePod :: "Pod option \<Rightarrow> 'w \<Rightarrow> (Pod option \<times> error option) \<times> 'w"
  DeletePod :: "string \<Rightarrow> string \<Rightarrow> 'w \<Rightarrow> error option \<times> 'w"
  DeletePodImmediately :: "string \<Rightarrow> string \<Rightarrow> 'w \<Rightarrow> error option \<times> 'w"
  WaitUntilPodReady :: "string \<Rightarrow> string \<Rightarrow> 'w \<Rightarrow> error option \<times> 'w"
  WaitUntilPodDeleted :: "string \<Rightarrow> string \<Rightarrow> 'w \<Rightarrow> error option \<times> 'w"
  GetStatsSummary :: "'w \<Rightarrow> (Summary option \<times> error option) \<times> 'w"

section \<open>Running a test: \<^verbatim>\<open>testing.T\<close>, panics and deferred calls\<close>

text \<open>What \<^verbatim>\<open>t.Error\<close>, \<^verbatim>\<open>t.Fatal\<close> and \<^verbatim>\<open>t.Fatalf\<close> are given to log: an error, or
  a format string with its arguments.\<close>

datatype fmt_arg = ArgString string | ArgInt int

datatype logged = LogErr error | Logf string "fmt_arg list"

text \<open>
  Everything a test does to the outside is recorded, in program order, with what came
  back. \<open>EvGo_WaitUntilPodDeleted\<close> is the \<^verbatim>\<open>go func() { ... }()\<close> statement that starts
  the waiting goroutine; \<open>EvRecv\<close> is the receive \<^verbatim>\<open><-podCh\<close> returning.
\<close>

datatype event =
    EvCreateDummyPodObjectWithPrefix string "string list" "Pod option"
  | EvCreatePod "Pod option" "Pod option" "error option"
  | EvDeletePod string string "error option"
  | EvDeletePodImmediately string string "error option"
  | EvWaitUntilPodReady string string "error option"
  | EvGo_WaitUntilPodDeleted string string
  | EvRecv string string "error option"
  | EvGetStatsSummary "Summary option" "error option"
  | EvSleep int
  | EvError logged
  | EvFatal logged

text \<open>The state a test runs in: the world behind the framework, the \<^verbatim>\<open>failed\<close> flag of
  its \<^verbatim>\<open>testing.T\<close>, and the record of what it did.\<close>

record 'w T =
  world :: 'w
  failed :: bool
  trace :: "event list"

text \<open>
  A statement either completes (\<open>Normal\<close>), or ends the test's goroutine through
  \<^verbatim>\<open>runtime.Goexit\<close> (what \<^verbatim>\<open>t.Fatal\<close> does after marking the test failed), or panics.
  In the last two cases the rest of the function body is skipped and only the deferred
  calls run.
\<close>

datatype 'a outcome = Normal 'a | Goexit | Panicking

type_synonym ('w, 'a) test = "'w T \<Rightarrow> 'a outcome \<times> 'w T"

definition ret :: "'a \<Rightarrow> ('w, 'a) test" where
  "ret x = (\<lambda>s. (Normal x, s))"

definition andThen :: "('w, 'a) test \<Rightarrow> ('a \<Rightarrow> ('w, 'b) test) \<Rightarrow> ('w, 'b) test" where
  "andThen m k = (\<lambda>s.
     case m s of
       (Normal x, s') \<Rightarrow> k x s'
     | (Goexit, s') \<Rightarrow> (Goexit, s')
     | (Panicking, s') \<Rightarrow> (Panicking, s'))"

definition panic :: "('w, 'a) test" where
  "panic = (\<lambda>s. (Panicking, s))"

definition record_event :: "event \<Rightarrow> ('w, unit) test" where
  "record_event e = (\<lambda>s. (Normal (), s\<lparr>trace := trace s @ [e]\<rparr>))"

text \<open>\<^verbatim>\<open>t.Error\<close> logs and marks the test failed; the test goes on.\<close>

definition t_Error :: "logged \<Rightarrow> ('w, unit) test" where
  "t_Error l = (\<lambda>s. (Normal (), s\<lparr>failed := True, trace := trace s @ [EvError l]\<rparr>))"

text \<open>\<^verbatim>\<open>t.Fatal\<close> and \<^verbatim>\<open>t.Fatalf\<close> log, mark the test failed and stop it.\<close>

definition t_Fatal :: "logged \<Rightarrow> ('w, 'a) test" where
  "t_Fatal l = (\<lambda>s. (Goexit, s\<lparr>failed := True, trace := trace s @ [EvFatal l]\<rparr>))"

text \<open>The idiom \<^verbatim>\<open>if err != nil { t.Fatal(err) }\<close>.\<close>

definition fatalIfErr :: "error option \<Rightarrow> ('w, unit) test" where
  "fatalIfErr err = (case err of Some e \<Rightarrow> t_Fatal (LogErr e) | None \<Rightarrow> ret ())"

text \<open>A call of a framework method: the world moves on and the call is recorded.\<close>

definition call :: "('w \<Rightarrow> 'a \<times> 'w) \<Rightarrow> ('a \<Rightarrow> event) \<Rightarrow> ('w, 'a) test" where
  "call m ev = (\<lambda>s.
     case m (world s) of
       (r, w') \<Rightarrow> (Normal r, s\<lparr>world := w', trace := trace s @ [ev r]\<rparr>))"

text \<open>Reading a field through a pointer (\<^verbatim>\<open>pod.Namespace\<close>) panics on \<^verbatim>\<open>nil\<close>; indexing a
  slice panics out of range.\<close>

definition deref :: "'a option \<Rightarrow> ('w, 'a) test" where
  "deref p = (case p of None \<Rightarrow> panic | Some x \<Rightarrow> ret x)"

definition index :: "'a list \<Rightarrow> int \<Rightarrow> ('w, 'a) test" where
  "index xs i = (if 0 \<le> i \<and> i < int (length xs) then ret (xs ! nat i) else panic)"

definition completes :: "'a completion \<Rightarrow> ('w, 'a) test" where
  "completes c = (case c of Returns x \<Rightarrow> ret x | Panics \<Rightarrow> panic)"

text \<open>
  \<^verbatim>\<open>defer d\<close> followed by the rest of the function body: the rest runs, and however it
  ends (return, \<^verbatim>\<open>Goexit\<close>, panic) the deferred call runs after it. The function ends as
  the body did, unless the deferred call itself panics or stops the goroutine.
\<close>

definition deferred :: "('w, unit) test \<Rightarrow> ('w, 'a) test \<Rightarrow> ('w, 'a) test" where
  "deferred d body = (\<lambda>s.
     case body s of
       (r, s1) \<Rightarrow>
         (case d s1 of
            (Normal u, s2) \<Rightarrow> (r, s2)
          | (Goexit, s2) \<Rightarrow> ((case r of Panicking \<Rightarrow> Panicking | _ \<Rightarrow> Goexit), s2)
          | (Panicking, s2) \<Rightarrow> (Panicking, s2)))"

text \<open>\<^verbatim>\<open>time.Duration\<close> counts nanoseconds.\<close>

definition Millisecond :: int where
  "Millisecond = 1000000"

definition deleteGracePeriodForProvider :: int where
  "deleteGracePeriodForProvider = 100 * Millisecond"

definition time_Sleep :: "int \<Rightarrow> ('w, unit) test" where
  "time_Sleep d = record_event (EvSleep d)"

section \<open>The framework calls as the tests make them\<close>

definition f_CreateDummyPodObjectWithPrefix ::
  "'w Framework \<Rightarrow> string \<Rightarrow> string list \<Rightarrow> ('w, Pod option) test" where
  "f_CreateDummyPodObjectWithPrefix f prefix names =
     call (CreateDummyPodObjectWithPrefix f prefix names)
       (EvCreateDummyPodObjectWithPrefix prefix names)"

definition f_CreatePod :: "'w Framework \<Rightarrow> Pod option \<Rightarrow> ('w, Pod option \<times> error option) test" where
  "f_CreatePod f obj = call (CreatePod f obj) (\<lambda>(pod, err). EvCreatePod obj pod err)"

definition f_DeletePod :: "'w Framework \<Rightarrow> string \<Rightarrow> string \<Rightarrow> ('w, error option) test" where
  "f_DeletePod f ns name = call (DeletePod f ns name) (EvDeletePod ns name)"

definition f_DeletePodImmediately ::
  "'w Framework \<Rightarrow> string \<Rightarrow> string \<Rightarrow> ('w, error option) test" where
  "f_DeletePodImmediately f ns name =
     call (DeletePodImmediately f ns name) (EvDeletePodImmediately ns name)"

definition f_WaitUntilPodReady ::
  "'w Framework \<Rightarrow> string \<Rightarrow> string \<Rightarrow> ('w, error option) test" where
  "f_WaitUntilPodReady f ns name = call (WaitUntilPodReady f ns name) (EvWaitUntilPodReady ns name)"

definition f_GetStatsSummary :: "'w Framework \<Rightarrow> ('w, Summary option \<times> error option) test" where
  "f_GetStatsSummary f = call (GetStatsSummary f) (\<lambda>(stats, err). EvGetStatsSummary stats err)"

text \<open>
  The deferred closure every test with a teardown registers:
  \<^verbatim>\<open>if err := f.DeletePod(pod.Namespace, pod.Name); err != nil && !apierrors.IsNotFound(err) { t.Error(err) }\<close>
\<close>

definition deferredDeletePod :: "'w Framework \<Rightarrow> Pod option \<Rightarrow> ('w, unit) test" where
  "deferredDeletePod f pod =
     andThen (deref pod) (\<lambda>p.
     andThen (f_DeletePod f (Namespace p) (Name p)) (\<lambda>err.
     case err of
       None \<Rightarrow> ret ()
     | Some e \<Rightarrow> if \<not> IsNotFound e then t_Error (LogErr e) else ret ()))"

text \<open>
  Waiting for a deletion. The test makes an unbuffered channel and starts a goroutine
  that calls \<^verbatim>\<open>f.WaitUntilPodDeleted\<close> and then either sends the error or closes the
  channel; the test's own goroutine goes on (to the delete request) and later blocks in
  \<^verbatim>\<open>err := <-podCh\<close>, which yields the error sent, or \<^verbatim>\<open>nil\<close> once the channel is closed.
  The model records the \<^verbatim>\<open>go\<close> statement where it stands, and takes the result of the
  wait from the framework where the test receives it: what the test's goroutine sees
  of the wait is exactly the value received.
\<close>

definition go_WaitUntilPodDeleted :: "string \<Rightarrow> string \<Rightarrow> ('w, unit) test" where
  "go_WaitUntilPodDeleted ns name = record_event (EvGo_WaitUntilPodDeleted ns name)"

definition recv :: "'w Framework \<Rightarrow> string \<Rightarrow> string \<Rightarrow> ('w, error option) test" where
  "recv f ns name = call (WaitUntilPodDeleted f ns name) (EvRecv ns name)"

section \<open>The fixtures of package framework\<close>

text \<open>\<^verbatim>\<open>CreatePodWithEnv\<close>: a dummy pod with prefix \<^verbatim>\<open>nginxtest\<close> and one container
  \<^verbatim>\<open>foo\<close>, whose first container gets the environment.\<close>

definition CreatePodWithEnv :: "'w Framework \<Rightarrow> EnvVar list \<Rightarrow> ('w, Pod option) test" where
  "CreatePodWithEnv f env =
     andThen (f_CreateDummyPodObjectWithPrefix f ''nginxtest'' [''foo'']) (\<lambda>pod.
     andThen (deref pod) (\<lambda>p.
     case Containers (Spec p) of
       [] \<Rightarrow> panic
     | c # cs \<Rightarrow> ret (Some (p\<lparr>Spec := (Spec p)\<lparr>Containers := c\<lparr>Env := env\<rparr> # cs\<rparr>\<rparr>))))"

definition configMapEnv :: "string \<Rightarrow> string \<Rightarrow> string \<Rightarrow> bool \<Rightarrow> EnvVar" where
  "configMapEnv n ref k opt =
     \<lparr>env_Name = n,
      ValueFrom = Some \<lparr>ConfigMapKeyRef =
          Some \<lparr>cm_LocalObjectReference = ref, cm_Key = k, cm_Optional = Some opt\<rparr>,
        SecretKeyRef = None\<rparr>\<rparr>"

definition secretEnv :: "string \<Rightarrow> string \<Rightarrow> string \<Rightarrow> bool \<Rightarrow> EnvVar" where
  "secretEnv n ref k opt =
     \<lparr>env_Name = n,
      ValueFrom = Some \<lparr>ConfigMapKeyRef = None,
        SecretKeyRef =
          Some \<lparr>sec_LocalObjectReference = ref, sec_Key = k, sec_Optional = Some opt\<rparr>\<rparr>\<rparr>"

text \<open>In the two mandatory fixtures \<^verbatim>\<open>var mandatory bool = false\<close> and
  \<^verbatim>\<open>var optional bool = true\<close> are what \<^verbatim>\<open>Optional\<close> points to.\<close>

definition CreatePodWithMandatoryConfigMaps :: "'w Framework \<Rightarrow> ('w, Pod option) test" where
  "CreatePodWithMandatoryConfigMaps f =
     (let mandatory = False; optional = True in
      CreatePodWithEnv f
        [configMapEnv ''zero'' ''Configname0'' ''key0'' optional,
         configMapEnv ''one'' ''Configname1'' ''key1'' mandatory])"

definition CreatePodWithOptionalConfigMaps :: "'w Framework \<Rightarrow> ('w, Pod option) test" where
  "CreatePodWithOptionalConfigMaps f =
     (let optional = True in
      CreatePodWithEnv f [configMapEnv ''ENVIRONMENTVARIABLE'' ''configname0'' ''key'' optional])"

definition CreatePodWithOptionalSecrets :: "'w Framework \<Rightarrow> ('w, Pod option) test" where
  "CreatePodWithOptionalSecrets f =
     (let optional = True in
      CreatePodWithEnv f [secretEnv ''ENVIRONMENTVARIABLE'' ''secretname0'' ''key'' optional])"

definition CreatePodWithMandatorySecrets :: "'w Framework \<Rightarrow> ('w, Pod option) test" where
  "CreatePodWithMandatorySecrets f =
     (let mandatory = False; optional = True in
      CreatePodWithEnv f
        [secretEnv ''zero'' ''secretname0'' ''secretkey0'' optional,
         secretEnv ''one'' ''secretname1'' ''secretkey1'' mandatory])"

text \<open>The format strings of the \<^verbatim>\<open>t.Fatalf\<close> calls.\<close>

definition fmt_wrong_node :: string where
  "fmt_wrong_node = ''expected stats for node %s, got stats for node %s''"

definition fmt_wrong_container_count :: string where
  "fmt_wrong_container_count = ''expected stats for %d containers, got stats for %d containers''"

definition fmt_still_found :: string where
  "fmt_still_found =
     ''expected to NOT find pod '' @ [CHR 0x22] @ ''%s/%s'' @ [CHR 0x22] @
     '' in the slice of pod stats''"

definition fmt_found_mandatory_secrets :: string where
  "fmt_found_mandatory_secrets =
     ''Expecting to NOT find pod '' @ [CHR 0x22] @ ''%s/%s'' @ [CHR 0x22] @
     '' when there are mandatory non existant secrets:''"

definition fmt_found_mandatory_configmaps :: string where
  "fmt_found_mandatory_configmaps =
     ''Expecting to NOT find pod '' @ [CHR 0x22] @ ''%s/%s'' @ [CHR 0x22] @
     '' when there are mandatory non existant ConfigMaps:''"

section \<open>The scenarios of \<^verbatim>\<open>basic_test.go\<close>\<close>

text \<open>
  Each test is written out statement by statement. \<open>andThen m (\<lambda>x. ...)\<close> is
  \<^verbatim>\<open>x := m; ...\<close>, and \<open>deferred d (...)\<close> is \<^verbatim>\<open>defer d\<close> followed by the rest of the body.
\<close>

definition TestGetStatsSummary :: "'w Framework \<Rightarrow> ('w, unit) test" where
  "TestGetStatsSummary f =
     andThen (f_CreateDummyPodObjectWithPrefix f ''nginx-0-'' [''foo'', ''bar'', ''baz'']) (\<lambda>obj.
     andThen (f_CreatePod f obj) (\<lambda>(pod, err).
     andThen (fatalIfErr err) (\<lambda>_.
     deferred (deferredDeletePod f pod) (
     andThen (deref pod) (\<lambda>p.
     andThen (f_WaitUntilPodReady f (Namespace p) (Name p)) (\<lambda>err.
     andThen (fatalIfErr err) (\<lambda>_.
     andThen (f_GetStatsSummary f) (\<lambda>(stats, err).
     andThen (fatalIfErr err) (\<lambda>_.
     andThen (deref stats) (\<lambda>st.
     if NodeName (Node st) \<noteq> fw_NodeName f
     then t_Fatal (Logf fmt_wrong_node
            [ArgString (fw_NodeName f), ArgString (NodeName (Node st))])
     else
     andThen (completes (findPodInPodStats stats pod)) (\<lambda>(idx, err).
     andThen (fatalIfErr err) (\<lambda>_.
     let desiredContainerStatsCount = int (length (Containers (Spec p))) in
     andThen (index (Pods st) idx) (\<lambda>ps.
     let currentContainerStatsCount = int (length (stats_Containers ps)) in
     if currentContainerStatsCount \<noteq> desiredContainerStatsCount
     then t_Fatal (Logf fmt_wrong_container_count
            [ArgInt desiredContainerStatsCount, ArgInt currentContainerStatsCount])
     else ret ())))))))))))))"

definition TestPodLifecycle :: "'w Framework \<Rightarrow> ('w, unit) test" where
  "TestPodLifecycle f =
     andThen (f_CreateDummyPodObjectWithPrefix f ''nginx-0-'' [''foo'']) (\<lambda>obj0.
     andThen (f_CreatePod f obj0) (\<lambda>(pod0, err).
     andThen (fatalIfErr err) (\<lambda>_.
     deferred (deferredDeletePod f pod0) (
     andThen (f_CreateDummyPodObjectWithPrefix f ''nginx-1-'' [''bar'']) (\<lambda>obj1.
     andThen (f_CreatePod f obj1) (\<lambda>(pod1, err).
     andThen (fatalIfErr err) (\<lambda>_.
     deferred (deferredDeletePod f pod1) (
     andThen (deref pod0) (\<lambda>p0.
     andThen (f_WaitUntilPodReady f (Namespace p0) (Name p0)) (\<lambda>err.
     andThen (fatalIfErr err) (\<lambda>_.
     andThen (deref pod1) (\<lambda>p1.
     andThen (f_WaitUntilPodReady f (Namespace p1) (Name p1)) (\<lambda>err.
     andThen (fatalIfErr err) (\<lambda>_.
     andThen (f_GetStatsSummary f) (\<lambda>(stats, err).
     andThen (fatalIfErr err) (\<lambda>_.
     andThen (completes (findPodInPodStats stats pod0)) (\<lambda>(_, err).
     andThen (fatalIfErr err) (\<lambda>_.
     andThen (completes (findPodInPodStats stats pod1)) (\<lambda>(_, err).
     andThen (fatalIfErr err) (\<lambda>_.
     andThen (go_WaitUntilPodDeleted (Namespace p1) (Name p1)) (\<lambda>_.
     andThen (f_DeletePod f (Namespace p1) (Name p1)) (\<lambda>err.
     andThen (fatalIfErr err) (\<lambda>_.
     andThen (recv f (Namespace p1) (Name p1)) (\<lambda>err.
     andThen (fatalIfErr err) (\<lambda>_.
     andThen (time_Sleep deleteGracePeriodForProvider) (\<lambda>_.
     andThen (f_GetStatsSummary f) (\<lambda>(stats, err).
     andThen (fatalIfErr err) (\<lambda>_.
     andThen (completes (findPodInPodStats stats pod1)) (\<lambda>(_, err).
     if err = None
     then t_Fatal (Logf fmt_still_found
            [ArgString (Namespace p1), ArgString (Name p1)])
     else
     andThen (go_WaitUntilPodDeleted (Namespace p0) (Name p0)) (\<lambda>_.
     andThen (f_DeletePodImmediately f (Namespace p0) (Name p0)) (\<lambda>err.
     andThen (fatalIfErr err) (\<lambda>_.
     andThen (recv f (Namespace p0) (Name p0)) (\<lambda>err.
     andThen (fatalIfErr err) (\<lambda>_.
     andThen (time_Sleep deleteGracePeriodForProvider) (\<lambda>_.
     andThen (f_GetStatsSummary f) (\<lambda>(stats, err).
     andThen (fatalIfErr err) (\<lambda>_.
     andThen (completes (findPodInPodStats stats pod0)) (\<lambda>(_, err).
     if err = None
     then t_Fatal (Logf fmt_still_found
            [ArgString (Namespace p0), ArgString (Name p0)])
     else ret ()))))))))))))))))))))))))))))))))))))))"

text \<open>The four tests below drop the error of \<^verbatim>\<open>f.CreatePod\<close>: \<^verbatim>\<open>err\<close> is assigned and then
  assigned again by the next call that returns one.\<close>

definition TestOptionalSecrets :: "'w Framework \<Rightarrow> ('w, unit) test" where
  "TestOptionalSecrets f =
     andThen (CreatePodWithOptionalSecrets f) (\<lambda>obj.
     andThen (f_CreatePod f obj) (\<lambda>(pod, err).
     deferred (deferredDeletePod f pod) (
     andThen (deref pod) (\<lambda>p.
     andThen (f_WaitUntilPodReady f (Namespace p) (Name p)) (\<lambda>err.
     andThen (fatalIfErr err) (\<lambda>_.
     andThen (f_GetStatsSummary f) (\<lambda>(stats, err).
     andThen (fatalIfErr err) (\<lambda>_.
     andThen (completes (findPodInPodStats stats pod)) (\<lambda>(_, err).
     andThen (fatalIfErr err) (\<lambda>_.
     andThen (go_WaitUntilPodDeleted (Namespace p) (Name p)) (\<lambda>_.
     andThen (f_DeletePod f (Namespace p) (Name p)) (\<lambda>err.
     andThen (fatalIfErr err) (\<lambda>_.
     andThen (recv f (Namespace p) (Name p)) (\<lambda>err.
     fatalIfErr err))))))))))))))"

definition TestMandatorySecrets :: "'w Framework \<Rightarrow> ('w, unit) test" where
  "TestMandatorySecrets f =
     andThen (CreatePodWithMandatorySecrets f) (\<lambda>obj.
     andThen (f_CreatePod f obj) (\<lambda>(pod, err).
     andThen (f_GetStatsSummary f) (\<lambda>(stats, err).
     andThen (fatalIfErr err) (\<lambda>_.
     andThen (completes (findPodInPodStats stats pod)) (\<lambda>(_, err).
     if err = None
     then andThen (deref pod) (\<lambda>p.
          t_Fatal (Logf fmt_found_mandatory_secrets
            [ArgString (Namespace p), ArgString (Name p)]))
     else
     andThen (deref pod) (\<lambda>p.
     andThen (go_WaitUntilPodDeleted (Namespace p) (Name p)) (\<lambda>_.
     andThen (f_DeletePod f (Namespace p) (Name p)) (\<lambda>err.
     andThen (fatalIfErr err) (\<lambda>_.
     andThen (recv f (Namespace p) (Name p)) (\<lambda>err.
     fatalIfErr err))))))))))"

definition TestOptionalConfigMaps :: "'w Framework \<Rightarrow> ('w, unit) test" where
  "TestOptionalConfigMaps f =
     andThen (CreatePodWithOptionalConfigMaps f) (\<lambda>obj.
     andThen (f_CreatePod f obj) (\<lambda>(pod, err).
     deferred (deferredDeletePod f pod) (
     andThen (deref pod) (\<lambda>p.
     andThen (f_WaitUntilPodReady f (Namespace p) (Name p)) (\<lambda>err.
     andThen (fatalIfErr err) (\<lambda>_.
     andThen (f_GetStatsSummary f) (\<lambda>(stats, err).
     andThen (fatalIfErr err) (\<lambda>_.
     andThen (completes (findPodInPodStats stats pod)) (\<lambda>(_, err).
     andThen (fatalIfErr err) (\<lambda>_.
     andThen (go_WaitUntilPodDeleted (Namespace p) (Name p)) (\<lambda>_.
     andThen (f_DeletePod f (Namespace p) (Name p)) (\<lambda>err.
     andThen (fatalIfErr err) (\<lambda>_.
     andThen (recv f (Namespace p) (Name p)) (\<lambda>err.
     fatalIfErr err))))))))))))))"

definition TestMandatoryConfigMaps :: "'w Framework \<Rightarrow> ('w, unit) test" where
  "TestMandatoryConfigMaps f =
     andThen (CreatePodWithMandatoryConfigMaps f) (\<lambda>obj.
     andThen (f_CreatePod f obj) (\<lambda>(pod, err).
     andThen (f_GetStatsSummary f) (\<lambda>(stats, err).
     andThen (fatalIfErr err) (\<lambda>_.
     andThen (completes (findPodInPodStats stats pod)) (\<lambda>(_, err).
     if err = None
     then andThen (deref pod) (\<lambda>p.
          t_Fatal (Logf fmt_found_mandatory_configmaps
            [ArgString (Namespace p), ArgString (Name p)]))
     else ret ())))))"

text \<open>A test starts with a fresh \<^verbatim>\<open>testing.T\<close>. It passes when its function returns and
  nothing marked it failed.\<close>

definition run :: "('w, unit) test \<Rightarrow> 'w \<Rightarrow> unit outcome \<times> 'w T" where
  "run tst w = tst \<lparr>world = w, failed = False, trace = []\<rparr>"

definition passes :: "unit outcome \<times> 'w T \<Rightarrow> bool" where
  "passes r \<longleftrightarrow> fst r = Normal () \<and> \<not> failed (snd r)"

section \<open>A provider to run the scenarios against\<close>

text \<open>
  Modelled from the spec: the framework's methods, the API server and the provider under
  test are not among the verified files. The world below follows the spec's sections 3
  and 6. The API accepts a submission and assigns the uid; the provider materialises a
  workload unless one of its references to the external store is non-optional and
  unresolvable; a workload is ready once materialised; a telemetry snapshot lists the
  materialised workloads, one usage record per container; a delete (graceful or
  immediate) removes the workload; the harness never creates store entries.
\<close>

record World =
  apiPods :: "Pod list"
  providerPods :: "Pod list"
  configMapStore :: "(string \<times> string) list"
  secretStore :: "(string \<times> string) list"
  nextId :: nat

text \<open>Modelled from the spec: the random suffix of a name and the uid the API assigns
  are fresh; here the \<open>n\<close>-th one is a run of \<open>n + 1\<close> letters.\<close>

definition fresh :: "nat \<Rightarrow> string" where
  "fresh n = replicate (Suc n) (CHR ''x'')"

text \<open>Modelled from the spec: a reference is optional when \<^verbatim>\<open>Optional\<close> points to
  \<^verbatim>\<open>true\<close>; it is unresolved when the store has no such entry.\<close>

definition unresolvedMandatory :: "World \<Rightarrow> EnvVar \<Rightarrow> bool" where
  "unresolvedMandatory w e \<longleftrightarrow>
     (case ValueFrom e of
        None \<Rightarrow> False
      | Some src \<Rightarrow>
          (case ConfigMapKeyRef src of
             None \<Rightarrow> False
           | Some r \<Rightarrow> cm_Optional r \<noteq> Some True \<and>
               (cm_LocalObjectReference r, cm_Key r) \<notin> set (configMapStore w))
          \<or>
          (case SecretKeyRef src of
             None \<Rightarrow> False
           | Some r \<Rightarrow> sec_Optional r \<noteq> Some True \<and>
               (sec_LocalObjectReference r, sec_Key r) \<notin> set (secretStore w)))"

definition podBlocked :: "World \<Rightarrow> Pod \<Rightarrow> bool" where
  "podBlocked w p \<longleftrightarrow>
     list_ex (\<lambda>c. list_ex (unresolvedMandatory w) (Env c)) (Containers (Spec p))"

definition isPod :: "string \<Rightarrow> string \<Rightarrow> Pod \<Rightarrow> bool" where
  "isPod ns name q \<longleftrightarrow> Namespace q = ns \<and> Name q = name"

definition podStatsOf :: "Pod \<Rightarrow> PodStats" where
  "podStatsOf q =
     \<lparr>PodRef = \<lparr>ref_Name = Name q, ref_Namespace = Namespace q, ref_UID = UID q\<rparr>,
      stats_Containers = map (\<lambda>c. \<lparr>cstats_Name = container_Name c\<rparr>) (Containers (Spec q))\<rparr>"

definition sim_NodeName :: string where
  "sim_NodeName = ''vkubelet-mock-0''"

definition sim_CreateDummyPodObjectWithPrefix ::
  "string \<Rightarrow> string list \<Rightarrow> World \<Rightarrow> Pod option \<times> World" where
  "sim_CreateDummyPodObjectWithPrefix prefix names w =
     (Some \<lparr>Namespace = ''default'', Name = prefix @ fresh (nextId w), UID = [],
            Spec = \<lparr>Containers = map (\<lambda>n. \<lparr>container_Name = n, Env = []\<rparr>) names\<rparr>\<rparr>,
      w\<lparr>nextId := Suc (nextId w)\<rparr>)"

definition sim_CreatePod :: "Pod option \<Rightarrow> World \<Rightarrow> (Pod option \<times> error option) \<times> World" where
  "sim_CreatePod obj w =
     (case obj of
        None \<Rightarrow> ((None, Some (errorString ''nil pod'')), w)
      | Some p \<Rightarrow>
          (let q = p\<lparr>UID := fresh (nextId w)\<rparr> in
           ((Some q, None),
            w\<lparr>apiPods := apiPods w @ [q],
              providerPods := (if podBlocked w q then providerPods w else providerPods w @ [q]),
              nextId := Suc (nextId w)\<rparr>)))"

definition sim_DeletePod :: "string \<Rightarrow> string \<Rightarrow> World \<Rightarrow> error option \<times> World" where
  "sim_DeletePod ns name w =
     (if list_ex (isPod ns name) (apiPods w)
      then (None,
            w\<lparr>apiPods := filter (\<lambda>q. \<not> isPod ns name q) (apiPods w),
              providerPods := filter (\<lambda>q. \<not> isPod ns name q) (providerPods w)\<rparr>)
      else (Some (StatusError StatusReasonNotFound ''pods not found''), w))"

definition sim_WaitUntilPodReady :: "string \<Rightarrow> string \<Rightarrow> World \<Rightarrow> error option \<times> World" where
  "sim_WaitUntilPodReady ns name w =
     (if list_ex (isPod ns name) (providerPods w) then None
      else Some (errorString ''timed out waiting for the condition''), w)"

definition sim_WaitUntilPodDeleted :: "string \<Rightarrow> string \<Rightarrow> World \<Rightarrow> error option \<times> World" where
  "sim_WaitUntilPodDeleted ns name w =
     (if list_ex (isPod ns name) (apiPods w)
      then Some (errorString ''timed out waiting for the condition'') else None, w)"

definition sim_GetStatsSummary :: "World \<Rightarrow> (Summary option \<times> error option) \<times> World" where
  "sim_GetStatsSummary w =
     ((Some \<lparr>Node = \<lparr>NodeName = sim_NodeName\<rparr>, Pods = map podStatsOf (providerPods w)\<rparr>, None), w)"

definition sim :: "World Framework" where
  "sim =
     \<lparr>fw_NodeName = sim_NodeName,
      CreateDummyPodObjectWithPrefix = sim_CreateDummyPodObjectWithPrefix,
      CreatePod = sim_CreatePod,
      DeletePod = sim_DeletePod,
      DeletePodImmediately = sim_DeletePod,
      WaitUntilPodReady = sim_WaitUntilPodReady,
      WaitUntilPodDeleted = sim_WaitUntilPodDeleted,
      GetStatsSummary = sim_GetStatsSummary\<rparr>"

definition emptyWorld :: World where
  "emptyWorld =
     \<lparr>apiPods = [], providerPods = [], configMapStore = [], secretStore = [], nextId = 0\<rparr>"

section \<open>The provider over time\<close>

text \<open>
  Modelled from the spec: what the harness, or any other client, can ask of the cluster
  are the framework's operations. \<open>serveAll\<close> is the world after a sequence of such
  requests; a statement about every sequence is a statement about every later moment.
  \<open>startWorld\<close> is a cluster with no workload yet and any content of the external
  stores.
\<close>

datatype request =
    ReqCreateDummyPodObjectWithPrefix string "string list"
  | ReqCreatePod "Pod option"
  | ReqDeletePod string string
  | ReqDeletePodImmediately string string
  | ReqWaitUntilPodReady string string
  | ReqWaitUntilPodDeleted string string
  | ReqGetStatsSummary

fun serve :: "request \<Rightarrow> World \<Rightarrow> World" where
  "serve (ReqCreateDummyPodObjectWithPrefix prefix names) w =
     snd (CreateDummyPodObjectWithPrefix sim prefix names w)"
| "serve (ReqCreatePod obj) w = snd (CreatePod sim obj w)"
| "serve (ReqDeletePod ns name) w = snd (DeletePod sim ns name w)"
| "serve (ReqDeletePodImmediately ns name) w = snd (DeletePodImmediately sim ns name w)"
| "serve (ReqWaitUntilPodReady ns name) w = snd (WaitUntilPodReady sim ns name w)"
| "serve (ReqWaitUntilPodDeleted ns name) w = snd (WaitUntilPodDeleted sim ns name w)"
| "serve ReqGetStatsSummary w = snd (GetStatsSummary sim w)"

fun serveAll :: "request list \<Rightarrow> World \<Rightarrow> World" where
  "serveAll [] w = w"
| "serveAll (r # rs) w = serveAll rs (serve r w)"

definition startWorld :: "(string \<times> string) list \<Rightarrow> (string \<times> string) list \<Rightarrow> World" where
  "startWorld cms secs =
     \<lparr>apiPods = [], providerPods = [], configMapStore = cms, secretStore = secs, nextId = 0\<rparr>"

text \<open>The snapshot the provider would answer with in a world.\<close>

definition snapshotOf :: "World \<Rightarrow> Summary option" where
  "snapshotOf w = fst (fst (GetStatsSummary sim w))"

text \<open>Every materialised pod carries a uid the API has handed out.\<close>

definition uidsHandedOut :: "World \<Rightarrow> bool" where
  "uidsHandedOut w \<longleftrightarrow> (\<forall>q \<in> set (providerPods w). \<exists>k < nextId w. UID q = fresh k)"


text \<open>Modelled from the spec: a workload is ready once the provider has materialised
  it.\<close>

definition isReady :: "World \<Rightarrow> Pod \<Rightarrow> bool" where
  "isReady w p \<longleftrightarrow> p \<in> set (providerPods w)"

section \<open>Concrete inputs\<close>

text \<open>A pod that was deleted and created again under the same name: the snapshot may
  still hold the record of the first instance, which differs in the uid only.\<close>

definition examplePod :: Pod where
  "examplePod =
     \<lparr>Namespace = ''default'', Name = ''nginx-0-abc'', UID = ''uid-2'',
      Spec = \<lparr>Containers = [\<lparr>container_Name = ''foo'', Env = []\<rparr>]\<rparr>\<rparr>"

definition exactRecord :: PodStats where
  "exactRecord =
     \<lparr>PodRef = \<lparr>ref_Name = ''nginx-0-abc'', ref_Namespace = ''default'', ref_UID = ''uid-2''\<rparr>,
      stats_Containers = [\<lparr>cstats_Name = ''foo''\<rparr>]\<rparr>"

definition staleRecord :: PodStats where
  "staleRecord =
     \<lparr>PodRef = \<lparr>ref_Name = ''nginx-0-abc'', ref_Namespace = ''default'', ref_UID = ''uid-1''\<rparr>,
      stats_Containers = [\<lparr>cstats_Name = ''foo''\<rparr>]\<rparr>"

definition otherRecord :: PodStats where
  "otherRecord =
     \<lparr>PodRef = \<lparr>ref_Name = ''nginx-1-def'', ref_Namespace = ''default'', ref_UID = ''uid-3''\<rparr>,
      stats_Containers = [\<lparr>cstats_Name = ''bar''\<rparr>]\<rparr>"

text \<open>Two records that carry the uid of \<open>examplePod\<close> and are not its record: one under
  another name, one under the same name in another namespace.\<close>

definition renamedRecord :: PodStats where
  "renamedRecord =
     \<lparr>PodRef = \<lparr>ref_Name = ''nginx-1-def'', ref_Namespace = ''default'', ref_UID = ''uid-2''\<rparr>,
      stats_Containers = [\<lparr>cstats_Name = ''bar''\<rparr>]\<rparr>"

definition foreignRecord :: PodStats where
  "foreignRecord =
     \<lparr>PodRef = \<lparr>ref_Name = ''nginx-0-abc'', ref_Namespace = ''kube-system'',
        ref_UID = ''uid-2''\<rparr>,
      stats_Containers = [\<lparr>cstats_Name = ''foo''\<rparr>]\<rparr>"

definition summaryOf :: "PodStats list \<Rightarrow> Summary" where
  "summaryOf ps = \<lparr>Node = \<lparr>NodeName = sim_NodeName\<rparr>, Pods = ps\<rparr>"

definition lifecyclePod0 :: Pod where
  "lifecyclePod0 =
     \<lparr>Namespace = ''default'', Name = ''nginx-0-x'', UID = ''xx'',
      Spec = \<lparr>Containers = [\<lparr>container_Name = ''foo'', Env = []\<rparr>]\<rparr>\<rparr>"

text \<open>
  Frameworks that answer differently from \<open>sim\<close> in one method; each stands for a
  cluster or provider a test run can meet.

  \<open>rejecting\<close>: the API refuses every submission. (client-go's \<^verbatim>\<open>Create\<close> returns the
  error together with a pointer to an empty object.)
\<close>

definition emptyPod :: Pod where
  "emptyPod = \<lparr>Namespace = [], Name = [], UID = [], Spec = \<lparr>Containers = []\<rparr>\<rparr>"

definition forbidden :: error where
  "forbidden = StatusError (StatusReasonOther ''Forbidden'') ''pods is forbidden''"

definition rejecting :: "World Framework" where
  "rejecting = sim\<lparr>CreatePod := (\<lambda>obj w. ((Some emptyPod, Some forbidden), w))\<rparr>"

text \<open>\<open>rejectingNil\<close>: the same, but the method returns \<^verbatim>\<open>nil, err\<close>.\<close>

definition rejectingNil :: "World Framework" where
  "rejectingNil = sim\<lparr>CreatePod := (\<lambda>obj w. ((None, Some forbidden), w))\<rparr>"

text \<open>\<open>blind\<close>: the provider reports no pod at all.\<close>

definition blind :: "World Framework" where
  "blind = sim\<lparr>GetStatsSummary := (\<lambda>w. ((Some (summaryOf []), None), w))\<rparr>"

text \<open>\<open>amnesic\<close>: on a graceful delete the provider drops every pod from its telemetry,
  not only the deleted one.\<close>

definition amnesic :: "World Framework" where
  "amnesic = sim\<lparr>DeletePod := (\<lambda>ns name w.
     case sim_DeletePod ns name w of (err, w') \<Rightarrow> (err, w'\<lparr>providerPods := []\<rparr>))\<rparr>"

text \<open>\<open>stubborn\<close>: every graceful delete fails with an error that is not a not-found.\<close>

definition refused :: error where
  "refused = errorString ''connection refused''"

definition stubborn :: "World Framework" where
  "stubborn = sim\<lparr>DeletePod := (\<lambda>ns name w. (Some refused, w))\<rparr>"

text \<open>\<open>hollow\<close>: the provider reports its pods without any container record.\<close>

definition hollow :: "World Framework" where
  "hollow = sim\<lparr>GetStatsSummary := (\<lambda>w.
     ((Some (summaryOf (map (\<lambda>q. (podStatsOf q)\<lparr>stats_Containers := []\<rparr>) (providerPods w))),
       None), w))\<rparr>"


section \<open>Vocabulary for statements about runs\<close>

text \<open>The predicate a run establishes: \<open>wp m Q s\<close> holds when running \<open>m\<close> from \<open>s\<close> ends
  with an outcome and a state that satisfy \<open>Q\<close>.\<close>

definition wp :: "('w, 'a) test \<Rightarrow> ('a outcome \<Rightarrow> 'w T \<Rightarrow> bool) \<Rightarrow> 'w T \<Rightarrow> bool" where
  "wp m Q s = (case m s of (r, s') \<Rightarrow> Q r s')"

text \<open>What the deferred closure leaves in the record when \<^verbatim>\<open>f.DeletePod\<close> returned \<open>err\<close>:
  the call, and a \<^verbatim>\<open>t.Error\<close> when the error is neither nil nor a not-found.\<close>

definition reportable :: "error option \<Rightarrow> bool" where
  "reportable err = (case err of None \<Rightarrow> False | Some e \<Rightarrow> \<not> IsNotFound e)"

definition teardownEvents :: "Pod \<Rightarrow> error option \<Rightarrow> event list" where
  "teardownEvents p err =
     EvDeletePod (Namespace p) (Name p) err #
     (case err of
        None \<Rightarrow> []
      | Some e \<Rightarrow> if IsNotFound e then [] else [EvError (LogErr e)])"


definition lifecyclePod1 :: Pod where
  "lifecyclePod1 =
     \<lparr>Namespace = ''default'', Name = ''nginx-1-xxx'', UID = ''xxxx'',
      Spec = \<lparr>Containers = [\<lparr>container_Name = ''bar'', Env = []\<rparr>]\<rparr>\<rparr>"

text \<open>What \<^verbatim>\<open>f.CreatePod\<close> returned, call by call, and the snapshots
  \<^verbatim>\<open>f.GetStatsSummary\<close> returned, call by call.\<close>

fun created :: "event list \<Rightarrow> (Pod option \<times> error option) list" where
  "created [] = []"
| "created (EvCreatePod obj pod err # es) = (pod, err) # created es"
| "created (e # es) = created es"

fun snapshots :: "event list \<Rightarrow> Summary option list" where
  "snapshots [] = []"
| "snapshots (EvGetStatsSummary st err # es) = st # snapshots es"
| "snapshots (e # es) = snapshots es"

text \<open>The pods a delete (graceful or immediate) was requested for, call by call.\<close>

fun deleteRequests :: "event list \<Rightarrow> (string \<times> string) list" where
  "deleteRequests [] = []"
| "deleteRequests (EvDeletePod ns name err # es) = (ns, name) # deleteRequests es"
| "deleteRequests (EvDeletePodImmediately ns name err # es) = (ns, name) # deleteRequests es"
| "deleteRequests (e # es) = deleteRequests es"

text \<open>
  A run tears a pod down when its record ends with the events of the deferred closure
  for that pod, followed at most by those of one more deferred closure (registered
  earlier, so run later), and the run is marked failed if the delete returned an error
  other than a not-found.
\<close>

definition tornDownIn :: "Pod \<Rightarrow> bool \<Rightarrow> event list \<Rightarrow> bool" where
  "tornDownIn p fl tr \<longleftrightarrow>
     (\<exists>pre err post.
        tr = pre @ teardownEvents p err @ post \<and>
        (post = [] \<or> (\<exists>p' err'. post = teardownEvents p' err')) \<and>
        (reportable err \<longrightarrow> fl))"

definition tearsDown :: "Pod \<Rightarrow> unit outcome \<times> 'w T \<Rightarrow> bool" where
  "tearsDown p r \<longleftrightarrow> tornDownIn p (failed (snd r)) (trace (snd r))"

text \<open>The pods \<open>sim\<close> creates, from an empty world, for the first submission of each
  scenario.\<close>

definition statsPod :: Pod where
  "statsPod =
     \<lparr>Namespace = ''default'', Name = ''nginx-0-x'', UID = ''xx'',
      Spec = \<lparr>Containers =
        [\<lparr>container_Name = ''foo'', Env = []\<rparr>, \<lparr>container_Name = ''bar'', Env = []\<rparr>,
         \<lparr>container_Name = ''baz'', Env = []\<rparr>]\<rparr>\<rparr>"

definition fixturePod :: "EnvVar list \<Rightarrow> Pod" where
  "fixturePod env =
     \<lparr>Namespace = ''default'', Name = ''nginxtestx'', UID = ''xx'',
      Spec = \<lparr>Containers = [\<lparr>container_Name = ''foo'', Env = env\<rparr>]\<rparr>\<rparr>"

definition optionalSecretsPod :: Pod where
  "optionalSecretsPod =
     fixturePod [secretEnv ''ENVIRONMENTVARIABLE'' ''secretname0'' ''key'' True]"

definition optionalConfigMapsPod :: Pod where
  "optionalConfigMapsPod =
     fixturePod [configMapEnv ''ENVIRONMENTVARIABLE'' ''configname0'' ''key'' True]"


definition mandatoryConfigMapsPod :: Pod where
  "mandatoryConfigMapsPod =
     fixturePod
       [configMapEnv ''zero'' ''Configname0'' ''key0'' True,
        configMapEnv ''one'' ''Configname1'' ''key1'' False]"

section \<open>Properties of the correlator\<close>

lemma rangePods_no_match:
  "(\<forall>p \<in> set ps. \<not> podMatches p pod) \<Longrightarrow>
     rangePods i ps pod = (- 1, Some (notFoundInStats pod))"
  by (induction ps arbitrary: i) auto

lemma rangePods_first_match:
  "(\<forall>p \<in> set pre. \<not> podMatches p pod) \<Longrightarrow> podMatches x pod \<Longrightarrow>
     rangePods i (pre @ x # rest) pod = (i + int (length pre), None)"
  by (induction pre arbitrary: i) auto

lemma rangePods_cases:
  "(\<exists>k < length ps. rangePods i ps pod = (i + int k, None) \<and> podMatches (ps ! k) pod \<and>
      (\<forall>j < k. \<not> podMatches (ps ! j) pod))
   \<or> (rangePods i ps pod = (- 1, Some (notFoundInStats pod)) \<and>
      (\<forall>p \<in> set ps. \<not> podMatches p pod))"
proof (induction ps arbitrary: i)
  case Nil
  show ?case by simp
next
  case (Cons p ps)
  show ?case
  proof (cases "podMatches p pod")
    case True
    then have "rangePods i (p # ps) pod = (i + int 0, None) \<and> podMatches ((p # ps) ! 0) pod \<and>
        (\<forall>j < 0. \<not> podMatches ((p # ps) ! j) pod)"
      by simp
    then show ?thesis by blast
  next
    case False
    from Cons.IH [of "i + 1"] show ?thesis
    proof
      assume "\<exists>k < length ps. rangePods (i + 1) ps pod = (i + 1 + int k, None) \<and>
          podMatches (ps ! k) pod \<and> (\<forall>j < k. \<not> podMatches (ps ! j) pod)"
      then obtain k where k: "k < length ps" "rangePods (i + 1) ps pod = (i + 1 + int k, None)"
          "podMatches (ps ! k) pod" "\<forall>j < k. \<not> podMatches (ps ! j) pod"
        by blast
      have "\<forall>j < Suc k. \<not> podMatches ((p # ps) ! j) pod"
      proof (intro allI impI)
        fix j assume "j < Suc k"
        then show "\<not> podMatches ((p # ps) ! j) pod"
          using False k(4) by (cases j) auto
      qed
      with k False have "Suc k < length (p # ps) \<and>
          rangePods i (p # ps) pod = (i + int (Suc k), None) \<and>
          podMatches ((p # ps) ! Suc k) pod \<and> (\<forall>j < Suc k. \<not> podMatches ((p # ps) ! j) pod)"
        by simp
      then show ?thesis by blast
    next
      assume "rangePods (i + 1) ps pod = (- 1, Some (notFoundInStats pod)) \<and>
          (\<forall>p \<in> set ps. \<not> podMatches p pod)"
      with False show ?thesis by simp
    qed
  qed
qed

lemma findPodInPodStats_Some:
  "findPodInPodStats (Some s) (Some pod) = Returns (rangePods 0 (Pods s) pod)"
  by (simp add: findPodInPodStats_def)

lemma rangePods_found_index:
  "rangePods i ps pod = (k, None) \<Longrightarrow>
     i \<le> k \<and> k < i + int (length ps) \<and> podMatches (ps ! nat (k - i)) pod"
proof (induction ps arbitrary: i)
  case Nil
  then show ?case by simp
next
  case (Cons p ps)
  show ?case
  proof (cases "podMatches p pod")
    case True
    with Cons.prems show ?thesis by simp
  next
    case False
    with Cons.prems have r: "rangePods (i + 1) ps pod = (k, None)" by simp
    from Cons.IH [OF r] have b: "i + 1 \<le> k" "k < i + 1 + int (length ps)"
      and m: "podMatches (ps ! nat (k - (i + 1))) pod"
      by simp_all
    from b have "nat (k - i) = Suc (nat (k - (i + 1)))" by simp
    with m have "podMatches ((p # ps) ! nat (k - i)) pod" by simp
    with b show ?thesis by simp
  qed
qed

text \<open>
  C2. Whenever \<open>findPodInPodStats\<close> reports a match (a nil error), the index it returns is
  that of a record of the snapshot whose namespace, name and uid all equal the pod's.
  When every record of a snapshot that agrees with the pod on namespace and name differs
  from it in the uid, the pod is reported as not found.
\<close>

theorem findPodInPodStats_identity_exact:
  "(findPodInPodStats (Some s) (Some pod) = Returns (i, None) \<longrightarrow>
      0 \<le> i \<and> i < int (length (Pods s)) \<and>
      ref_Namespace (PodRef (Pods s ! nat i)) = Namespace pod \<and>
      ref_Name (PodRef (Pods s ! nat i)) = Name pod \<and>
      ref_UID (PodRef (Pods s ! nat i)) = UID pod) \<and>
   ((\<forall>p \<in> set (Pods s').
        ref_Namespace (PodRef p) = Namespace pod' \<and> ref_Name (PodRef p) = Name pod' \<longrightarrow>
        ref_UID (PodRef p) \<noteq> UID pod') \<longrightarrow>
      findPodInPodStats (Some s') (Some pod') = Returns (- 1, Some (notFoundInStats pod')))"
proof (intro conjI impI)
  assume "findPodInPodStats (Some s) (Some pod) = Returns (i, None)"
  then have "rangePods 0 (Pods s) pod = (i, None)"
    by (simp add: findPodInPodStats_Some)
  from rangePods_found_index [OF this]
  have "0 \<le> i" "i < int (length (Pods s))" "podMatches (Pods s ! nat i) pod"
    by simp_all
  then show "0 \<le> i" "i < int (length (Pods s))"
    "ref_Namespace (PodRef (Pods s ! nat i)) = Namespace pod"
    "ref_Name (PodRef (Pods s ! nat i)) = Name pod"
    "ref_UID (PodRef (Pods s ! nat i)) = UID pod"
    by (simp_all add: podMatches_def)
next
  assume "\<forall>p \<in> set (Pods s').
      ref_Namespace (PodRef p) = Namespace pod' \<and> ref_Name (PodRef p) = Name pod' \<longrightarrow>
      ref_UID (PodRef p) \<noteq> UID pod'"
  then have "\<forall>p \<in> set (Pods s'). \<not> podMatches p pod'"
    by (auto simp: podMatches_def)
  then show "findPodInPodStats (Some s') (Some pod') = Returns (- 1, Some (notFoundInStats pod'))"
    by (simp add: findPodInPodStats_Some rangePods_no_match)
qed

theorem findPodInPodStats_identity_exact_witness:
  "findPodInPodStats (Some (summaryOf [otherRecord, exactRecord])) (Some examplePod)
     = Returns (1, None) \<and>
   ref_Namespace (PodRef (Pods (summaryOf [otherRecord, exactRecord]) ! nat 1))
     = Namespace examplePod \<and>
   ref_Name (PodRef (Pods (summaryOf [otherRecord, exactRecord]) ! nat 1)) = Name examplePod \<and>
   ref_UID (PodRef (Pods (summaryOf [otherRecord, exactRecord]) ! nat 1)) = UID examplePod \<and>
   ref_Namespace (PodRef staleRecord) = Namespace examplePod \<and>
   ref_Name (PodRef staleRecord) = Name examplePod \<and>
   ref_UID (PodRef staleRecord) \<noteq> UID examplePod \<and>
   findPodInPodStats (Some (summaryOf [otherRecord, staleRecord])) (Some examplePod)
     = Returns (- 1, Some (notFoundInStats examplePod))"
  using findPodInPodStats_identity_exact [of "summaryOf [otherRecord, exactRecord]" examplePod 1
      "summaryOf [otherRecord, staleRecord]" examplePod]
  by (simp add: findPodInPodStats_def podMatches_def summaryOf_def examplePod_def
      exactRecord_def staleRecord_def otherRecord_def)

lemma findPodInPodStats_cases:
  "(\<exists>i < length (Pods s).
       findPodInPodStats (Some s) (Some pod) = Returns (int i, None) \<and>
       podMatches (Pods s ! i) pod \<and> (\<forall>j < i. \<not> podMatches (Pods s ! j) pod))
   \<or> (findPodInPodStats (Some s) (Some pod) = Returns (- 1, Some (notFoundInStats pod)) \<and>
       (\<forall>p \<in> set (Pods s). \<not> podMatches p pod))"
  using rangePods_cases [of "Pods s" 0 pod] by (simp add: findPodInPodStats_Some)

lemma findPodInPodStats_error_iff:
  "(\<exists>e. findPodInPodStats (Some s) (Some pod) = Returns (- 1, Some e)) \<longleftrightarrow>
     (\<forall>p \<in> set (Pods s). \<not> podMatches p pod)"
proof
  assume "\<exists>e. findPodInPodStats (Some s) (Some pod) = Returns (- 1, Some e)"
  with findPodInPodStats_cases [of s pod]
  show "\<forall>p \<in> set (Pods s). \<not> podMatches p pod" by auto
next
  assume "\<forall>p \<in> set (Pods s). \<not> podMatches p pod"
  then show "\<exists>e. findPodInPodStats (Some s) (Some pod) = Returns (- 1, Some e)"
    by (simp add: findPodInPodStats_Some rangePods_no_match)
qed

lemma findPodInPodStats_stops_at_first_match:
  "(\<forall>p \<in> set pre. \<not> podMatches p pod) \<Longrightarrow> podMatches x pod \<Longrightarrow>
     findPodInPodStats (Some (s\<lparr>Pods := pre @ x # rest\<rparr>)) (Some pod)
       = Returns (int (length pre), None)"
  by (simp add: findPodInPodStats_Some rangePods_first_match)

text \<open>
  C10. For a snapshot and a pod, \<open>findPodInPodStats\<close> returns either the smallest index
  of a record whose namespace, name and uid all equal the pod's, with a nil error, or the
  index \<open>-1\<close> with a non-nil error; the second happens exactly when no record of the
  snapshot equals the pod in all three fields. Records after the first such record have
  no influence on the result.
\<close>

theorem findPodInPodStats_first_match_or_error:
  "((\<exists>i < length (Pods s).
        findPodInPodStats (Some s) (Some pod) = Returns (int i, None) \<and>
        ref_Namespace (PodRef (Pods s ! i)) = Namespace pod \<and>
        ref_Name (PodRef (Pods s ! i)) = Name pod \<and>
        ref_UID (PodRef (Pods s ! i)) = UID pod \<and>
        (\<forall>j < i. \<not> (ref_Namespace (PodRef (Pods s ! j)) = Namespace pod \<and>
                     ref_Name (PodRef (Pods s ! j)) = Name pod \<and>
                     ref_UID (PodRef (Pods s ! j)) = UID pod)))
    \<or> (findPodInPodStats (Some s) (Some pod) = Returns (- 1, Some (notFoundInStats pod)) \<and>
        (\<forall>p \<in> set (Pods s). \<not> (ref_Namespace (PodRef p) = Namespace pod \<and>
                                 ref_Name (PodRef p) = Name pod \<and>
                                 ref_UID (PodRef p) = UID pod)))) \<and>
   ((\<exists>e. findPodInPodStats (Some s) (Some pod) = Returns (- 1, Some e)) \<longleftrightarrow>
      (\<forall>p \<in> set (Pods s). \<not> (ref_Namespace (PodRef p) = Namespace pod \<and>
                               ref_Name (PodRef p) = Name pod \<and>
                               ref_UID (PodRef p) = UID pod))) \<and>
   ((\<forall>p \<in> set pre. \<not> (ref_Namespace (PodRef p) = Namespace pod \<and>
                         ref_Name (PodRef p) = Name pod \<and>
                         ref_UID (PodRef p) = UID pod)) \<and>
    ref_Namespace (PodRef x) = Namespace pod \<and>
    ref_Name (PodRef x) = Name pod \<and>
    ref_UID (PodRef x) = UID pod \<longrightarrow>
      findPodInPodStats (Some (s\<lparr>Pods := pre @ x # rest\<rparr>)) (Some pod)
        = Returns (int (length pre), None) \<and>
      findPodInPodStats (Some (s\<lparr>Pods := pre @ x # rest'\<rparr>)) (Some pod)
        = findPodInPodStats (Some (s\<lparr>Pods := pre @ x # rest\<rparr>)) (Some pod))"
proof (intro conjI)
  show "(\<exists>i < length (Pods s).
        findPodInPodStats (Some s) (Some pod) = Returns (int i, None) \<and>
        ref_Namespace (PodRef (Pods s ! i)) = Namespace pod \<and>
        ref_Name (PodRef (Pods s ! i)) = Name pod \<and>
        ref_UID (PodRef (Pods s ! i)) = UID pod \<and>
        (\<forall>j < i. \<not> (ref_Namespace (PodRef (Pods s ! j)) = Namespace pod \<and>
                     ref_Name (PodRef (Pods s ! j)) = Name pod \<and>
                     ref_UID (PodRef (Pods s ! j)) = UID pod)))
    \<or> (findPodInPodStats (Some s) (Some pod) = Returns (- 1, Some (notFoundInStats pod)) \<and>
        (\<forall>p \<in> set (Pods s). \<not> (ref_Namespace (PodRef p) = Namespace pod \<and>
                                 ref_Name (PodRef p) = Name pod \<and>
                                 ref_UID (PodRef p) = UID pod)))"
    using findPodInPodStats_cases [of s pod] by (simp add: podMatches_def)
  show "(\<exists>e. findPodInPodStats (Some s) (Some pod) = Returns (- 1, Some e)) \<longleftrightarrow>
      (\<forall>p \<in> set (Pods s). \<not> (ref_Namespace (PodRef p) = Namespace pod \<and>
                               ref_Name (PodRef p) = Name pod \<and>
                               ref_UID (PodRef p) = UID pod))"
    using findPodInPodStats_error_iff [of s pod] by (simp add: podMatches_def)
  show "(\<forall>p \<in> set pre. \<not> (ref_Namespace (PodRef p) = Namespace pod \<and>
                         ref_Name (PodRef p) = Name pod \<and>
                         ref_UID (PodRef p) = UID pod)) \<and>
    ref_Namespace (PodRef x) = Namespace pod \<and>
    ref_Name (PodRef x) = Name pod \<and>
    ref_UID (PodRef x) = UID pod \<longrightarrow>
      findPodInPodStats (Some (s\<lparr>Pods := pre @ x # rest\<rparr>)) (Some pod)
        = Returns (int (length pre), None) \<and>
      findPodInPodStats (Some (s\<lparr>Pods := pre @ x # rest'\<rparr>)) (Some pod)
        = findPodInPodStats (Some (s\<lparr>Pods := pre @ x # rest\<rparr>)) (Some pod)"
  proof
    assume h: "(\<forall>p \<in> set pre. \<not> (ref_Namespace (PodRef p) = Namespace pod \<and>
                         ref_Name (PodRef p) = Name pod \<and>
                         ref_UID (PodRef p) = UID pod)) \<and>
      ref_Namespace (PodRef x) = Namespace pod \<and>
      ref_Name (PodRef x) = Name pod \<and>
      ref_UID (PodRef x) = UID pod"
    then have pre: "\<forall>p \<in> set pre. \<not> podMatches p pod" and x: "podMatches x pod"
      by (simp_all add: podMatches_def)
    show "findPodInPodStats (Some (s\<lparr>Pods := pre @ x # rest\<rparr>)) (Some pod)
        = Returns (int (length pre), None) \<and>
      findPodInPodStats (Some (s\<lparr>Pods := pre @ x # rest'\<rparr>)) (Some pod)
        = findPodInPodStats (Some (s\<lparr>Pods := pre @ x # rest\<rparr>)) (Some pod)"
      by (simp add: findPodInPodStats_stops_at_first_match [OF pre x])
  qed
qed

theorem findPodInPodStats_first_match_or_error_witness:
  "findPodInPodStats
     (Some (summaryOf [renamedRecord, foreignRecord, staleRecord, exactRecord, exactRecord]))
     (Some examplePod) = Returns (3, None) \<and>
   (ref_UID (PodRef renamedRecord) = UID examplePod \<and>
    ref_Namespace (PodRef renamedRecord) = Namespace examplePod \<and>
    ref_Name (PodRef renamedRecord) \<noteq> Name examplePod) \<and>
   (ref_UID (PodRef foreignRecord) = UID examplePod \<and>
    ref_Name (PodRef foreignRecord) = Name examplePod \<and>
    ref_Namespace (PodRef foreignRecord) \<noteq> Namespace examplePod) \<and>
   (ref_Namespace (PodRef staleRecord) = Namespace examplePod \<and>
    ref_Name (PodRef staleRecord) = Name examplePod \<and>
    ref_UID (PodRef staleRecord) \<noteq> UID examplePod) \<and>
   (ref_Namespace (PodRef exactRecord) = Namespace examplePod \<and>
    ref_Name (PodRef exactRecord) = Name examplePod \<and>
    ref_UID (PodRef exactRecord) = UID examplePod) \<and>
   findPodInPodStats
     (Some (summaryOf [renamedRecord, foreignRecord, staleRecord, exactRecord, otherRecord]))
     (Some examplePod)
     = findPodInPodStats
         (Some (summaryOf [renamedRecord, foreignRecord, staleRecord, exactRecord, exactRecord]))
         (Some examplePod) \<and>
   findPodInPodStats (Some (summaryOf [renamedRecord, foreignRecord, staleRecord]))
     (Some examplePod) = Returns (- 1, Some (notFoundInStats examplePod)) \<and>
   (\<exists>e. findPodInPodStats (Some (summaryOf [renamedRecord, foreignRecord, staleRecord]))
     (Some examplePod) = Returns (- 1, Some e))"
  using findPodInPodStats_first_match_or_error
      [of "summaryOf [renamedRecord, foreignRecord, staleRecord, exactRecord, exactRecord]"
        examplePod "[renamedRecord, foreignRecord, staleRecord]" exactRecord "[exactRecord]"
        "[otherRecord]"]
    findPodInPodStats_first_match_or_error
      [of "summaryOf [renamedRecord, foreignRecord, staleRecord]" examplePod "[]" exactRecord
        "[]" "[]"]
  by (simp add: findPodInPodStats_def podMatches_def summaryOf_def examplePod_def
      exactRecord_def staleRecord_def otherRecord_def renamedRecord_def foreignRecord_def)

section \<open>Rules for following a run step by step\<close>

lemma wp_Let_run:
  "(let r = run m w in P r) = wp m (\<lambda>r s. P (r, s)) \<lparr>world = w, failed = False, trace = []\<rparr>"
  by (simp add: wp_def run_def split: prod.splits)

lemma wp_run:
  "wp m (\<lambda>r s. P (r, s)) \<lparr>world = w, failed = False, trace = []\<rparr> \<Longrightarrow> P (run m w)"
  by (simp add: wp_def run_def split: prod.splits)

lemma wp_andThen:
  "wp (andThen m k) Q =
     wp m (\<lambda>r. case r of Normal x \<Rightarrow> wp (k x) Q | Goexit \<Rightarrow> Q Goexit | Panicking \<Rightarrow> Q Panicking)"
  by (auto simp: wp_def andThen_def fun_eq_iff split: prod.splits outcome.splits)

lemma wp_ret: "wp (ret x) Q s = Q (Normal x) s"
  by (simp add: wp_def ret_def)

lemma wp_panic: "wp panic Q s = Q Panicking s"
  by (simp add: wp_def panic_def)

lemma wp_t_Fatal:
  "wp (t_Fatal l) Q s = Q Goexit (s\<lparr>failed := True, trace := trace s @ [EvFatal l]\<rparr>)"
  by (simp add: wp_def t_Fatal_def)

lemma wp_fatalIfErr:
  "wp (fatalIfErr err) Q s =
     (case err of
        None \<Rightarrow> Q (Normal ()) s
      | Some e \<Rightarrow> Q Goexit (s\<lparr>failed := True, trace := trace s @ [EvFatal (LogErr e)]\<rparr>))"
  by (simp add: fatalIfErr_def wp_ret wp_t_Fatal split: option.splits)

lemma wp_deref:
  "wp (deref p) Q s = (case p of None \<Rightarrow> Q Panicking s | Some x \<Rightarrow> Q (Normal x) s)"
  by (simp add: deref_def wp_ret wp_panic split: option.splits)

lemma wp_completes:
  "wp (completes c) Q s = (case c of Panics \<Rightarrow> Q Panicking s | Returns x \<Rightarrow> Q (Normal x) s)"
  by (simp add: completes_def wp_ret wp_panic split: completion.splits)

lemma wp_index:
  "wp (index xs i) Q s =
     (if 0 \<le> i \<and> i < int (length xs) then Q (Normal (xs ! nat i)) s else Q Panicking s)"
  by (simp add: index_def wp_ret wp_panic)

lemma wp_call:
  "wp (call m ev) Q s =
     (\<forall>r w'. m (world s) = (r, w') \<longrightarrow>
        Q (Normal r) (s\<lparr>world := w', trace := trace s @ [ev r]\<rparr>))"
  by (simp add: wp_def call_def split: prod.splits)

lemma wp_record_event:
  "wp (record_event e) Q s = Q (Normal ()) (s\<lparr>trace := trace s @ [e]\<rparr>)"
  by (simp add: wp_def record_event_def)

lemma wp_deferred:
  "wp (deferred d body) Q =
     wp body (\<lambda>r. wp d (\<lambda>rd. Q (case rd of
          Normal u \<Rightarrow> r
        | Goexit \<Rightarrow> (case r of Panicking \<Rightarrow> Panicking | _ \<Rightarrow> Goexit)
        | Panicking \<Rightarrow> Panicking)))"
  by (auto simp: wp_def deferred_def fun_eq_iff split: prod.splits outcome.splits)

lemma wp_deferredDeletePod:
  "wp (deferredDeletePod f pod) Q s =
     (case pod of
        None \<Rightarrow> Q Panicking s
      | Some p \<Rightarrow>
          (\<forall>err w'. DeletePod f (Namespace p) (Name p) (world s) = (err, w') \<longrightarrow>
             Q (Normal ()) (s\<lparr>world := w', failed := failed s \<or> reportable err,
                  trace := trace s @ teardownEvents p err\<rparr>)))"
  by (auto simp: wp_def deferredDeletePod_def andThen_def deref_def panic_def ret_def
      f_DeletePod_def call_def t_Error_def reportable_def teardownEvents_def
      split: option.splits prod.splits)

lemmas wp_rules = wp_andThen wp_ret wp_panic wp_t_Fatal wp_fatalIfErr wp_deref wp_completes
  wp_index wp_call wp_record_event wp_deferred wp_deferredDeletePod

lemmas calls = f_CreateDummyPodObjectWithPrefix_def f_CreatePod_def f_DeletePod_def
  f_DeletePodImmediately_def f_WaitUntilPodReady_def f_GetStatsSummary_def recv_def
  go_WaitUntilPodDeleted_def time_Sleep_def

lemmas fixtures = CreatePodWithEnv_def CreatePodWithMandatoryConfigMaps_def
  CreatePodWithMandatorySecrets_def CreatePodWithOptionalConfigMaps_def
  CreatePodWithOptionalSecrets_def




lemma findPodInPodStats_Returns_iff:
  "findPodInPodStats a b = Returns r \<longleftrightarrow>
     (\<exists>s p. a = Some s \<and> b = Some p \<and> r = rangePods 0 (Pods s) p)"
  by (auto simp: findPodInPodStats_def split: option.splits)

lemma findPodInPodStats_Panics_iff:
  "findPodInPodStats a b = Panics \<longleftrightarrow> a = None \<or> b = None"
  by (auto simp: findPodInPodStats_def split: option.splits)

lemma rangePods_error:
  "rangePods i ps pod = (k, Some e) \<Longrightarrow> k = - 1 \<and> e = notFoundInStats pod"
  by (induction ps arbitrary: i) (auto split: if_splits)

lemma findPodInPodStats_error:
  "findPodInPodStats a (Some p) = Returns (k, Some e) \<Longrightarrow>
     findPodInPodStats a (Some p) = Returns (- 1, Some (notFoundInStats p))"
  by (auto simp: findPodInPodStats_Returns_iff dest: rangePods_error [OF sym])

section \<open>The two-pod lifecycle scenario\<close>


text \<open>Every passing run of \<open>TestPodLifecycle\<close> has the same shape.\<close>

lemma TestPodLifecycle_shape:
  "passes (run (TestPodLifecycle f) w) \<longrightarrow>
   (\<exists>obj0 p0 obj1 p1 st1 st2 st3 d1 d0.
     trace (snd (run (TestPodLifecycle f) w)) =
       [EvCreateDummyPodObjectWithPrefix ''nginx-0-'' [''foo''] obj0,
        EvCreatePod obj0 (Some p0) None,
        EvCreateDummyPodObjectWithPrefix ''nginx-1-'' [''bar''] obj1,
        EvCreatePod obj1 (Some p1) None,
        EvWaitUntilPodReady (Namespace p0) (Name p0) None,
        EvWaitUntilPodReady (Namespace p1) (Name p1) None,
        EvGetStatsSummary (Some st1) None,
        EvGo_WaitUntilPodDeleted (Namespace p1) (Name p1),
        EvDeletePod (Namespace p1) (Name p1) None,
        EvRecv (Namespace p1) (Name p1) None,
        EvSleep deleteGracePeriodForProvider,
        EvGetStatsSummary (Some st2) None,
        EvGo_WaitUntilPodDeleted (Namespace p0) (Name p0),
        EvDeletePodImmediately (Namespace p0) (Name p0) None,
        EvRecv (Namespace p0) (Name p0) None,
        EvSleep deleteGracePeriodForProvider,
        EvGetStatsSummary (Some st3) None] @ teardownEvents p1 d1 @ teardownEvents p0 d0 \<and>
     \<not> reportable d1 \<and> \<not> reportable d0 \<and>
     (\<exists>i. findPodInPodStats (Some st1) (Some p0) = Returns (i, None)) \<and>
     (\<exists>i. findPodInPodStats (Some st1) (Some p1) = Returns (i, None)) \<and>
     findPodInPodStats (Some st2) (Some p1) = Returns (- 1, Some (notFoundInStats p1)) \<and>
     findPodInPodStats (Some st3) (Some p0) = Returns (- 1, Some (notFoundInStats p0)))"
  apply (rule wp_run [where P = "\<lambda>r. passes r \<longrightarrow>
   (\<exists>obj0 p0 obj1 p1 st1 st2 st3 d1 d0.
     trace (snd r) =
       [EvCreateDummyPodObjectWithPrefix ''nginx-0-'' [''foo''] obj0,
        EvCreatePod obj0 (Some p0) None,
        EvCreateDummyPodObjectWithPrefix ''nginx-1-'' [''bar''] obj1,
        EvCreatePod obj1 (Some p1) None,
        EvWaitUntilPodReady (Namespace p0) (Name p0) None,
        EvWaitUntilPodReady (Namespace p1) (Name p1) None,
        EvGetStatsSummary (Some st1) None,
        EvGo_WaitUntilPodDeleted (Namespace p1) (Name p1),
        EvDeletePod (Namespace p1) (Name p1) None,
        EvRecv (Namespace p1) (Name p1) None,
        EvSleep deleteGracePeriodForProvider,
        EvGetStatsSummary (Some st2) None,
        EvGo_WaitUntilPodDeleted (Namespace p0) (Name p0),
        EvDeletePodImmediately (Namespace p0) (Name p0) None,
        EvRecv (Namespace p0) (Name p0) None,
        EvSleep deleteGracePeriodForProvider,
        EvGetStatsSummary (Some st3) None] @ teardownEvents p1 d1 @ teardownEvents p0 d0 \<and>
     \<not> reportable d1 \<and> \<not> reportable d0 \<and>
     (\<exists>i. findPodInPodStats (Some st1) (Some p0) = Returns (i, None)) \<and>
     (\<exists>i. findPodInPodStats (Some st1) (Some p1) = Returns (i, None)) \<and>
     findPodInPodStats (Some st2) (Some p1) = Returns (- 1, Some (notFoundInStats p1)) \<and>
     findPodInPodStats (Some st3) (Some p0) = Returns (- 1, Some (notFoundInStats p0)))"])
  apply (simp add: TestPodLifecycle_def calls wp_rules passes_def
      split: option.split completion.split)
  apply (clarsimp simp: findPodInPodStats_Returns_iff)
  apply (intro exI conjI, rule refl)
  apply (auto dest: rangePods_error [OF sym])
  done


lemma no_sleep_in_teardown: "EvSleep d \<notin> set (teardownEvents p e)"
  by (simp add: teardownEvents_def split: option.splits)




lemma sim_lifecycle_passes: "passes (run (TestPodLifecycle sim) emptyWorld)"
  by code_simp



lemma sim_optional_secrets_trace:
  "passes (run (TestOptionalSecrets sim) emptyWorld) \<and>
   drop 5 (trace (snd (run (TestOptionalSecrets sim) emptyWorld))) =
     [EvDeletePod ''default'' ''nginxtestx'' None,
      EvRecv ''default'' ''nginxtestx'' None,
      EvDeletePod ''default'' ''nginxtestx''
        (Some (StatusError StatusReasonNotFound ''pods not found''))]"
  by code_simp


text \<open>
  C5, as amended. A passing run of the two-pod lifecycle scenario has found both pods in
  the snapshot fetched before any deletion, has not found the gracefully deleted pod in
  the snapshot fetched after the grace window that follows its deletion, and has not
  found the immediately deleted pod in the snapshot fetched after the grace window that
  follows its own. Nothing is asserted about the other, still live pod in the snapshot
  between the two deletions.
\<close>

theorem TestPodLifecycle_passing_run:
  "passes (run (TestPodLifecycle f) w) \<Longrightarrow>
   \<exists>obj0 p0 obj1 p1 st1 st2 st3 d1 d0.
     trace (snd (run (TestPodLifecycle f) w)) =
       [EvCreateDummyPodObjectWithPrefix ''nginx-0-'' [''foo''] obj0,
        EvCreatePod obj0 (Some p0) None,
        EvCreateDummyPodObjectWithPrefix ''nginx-1-'' [''bar''] obj1,
        EvCreatePod obj1 (Some p1) None,
        EvWaitUntilPodReady (Namespace p0) (Name p0) None,
        EvWaitUntilPodReady (Namespace p1) (Name p1) None,
        EvGetStatsSummary (Some st1) None,
        EvGo_WaitUntilPodDeleted (Namespace p1) (Name p1),
        EvDeletePod (Namespace p1) (Name p1) None,
        EvRecv (Namespace p1) (Name p1) None,
        EvSleep deleteGracePeriodForProvider,
        EvGetStatsSummary (Some st2) None,
        EvGo_WaitUntilPodDeleted (Namespace p0) (Name p0),
        EvDeletePodImmediately (Namespace p0) (Name p0) None,
        EvRecv (Namespace p0) (Name p0) None,
        EvSleep deleteGracePeriodForProvider,
        EvGetStatsSummary (Some st3) None] @ teardownEvents p1 d1 @ teardownEvents p0 d0 \<and>
     (\<exists>i. findPodInPodStats (Some st1) (Some p0) = Returns (i, None)) \<and>
     (\<exists>i. findPodInPodStats (Some st1) (Some p1) = Returns (i, None)) \<and>
     findPodInPodStats (Some st2) (Some p1) = Returns (- 1, Some (notFoundInStats p1)) \<and>
     findPodInPodStats (Some st3) (Some p0) = Returns (- 1, Some (notFoundInStats p0))"
  using TestPodLifecycle_shape [of f w] by blast

theorem TestPodLifecycle_passing_run_witness:
  "passes (run (TestPodLifecycle sim) emptyWorld) \<and>
   (\<exists>obj0 p0 obj1 p1 st1 st2 st3 d1 d0.
     trace (snd (run (TestPodLifecycle sim) emptyWorld)) =
       [EvCreateDummyPodObjectWithPrefix ''nginx-0-'' [''foo''] obj0,
        EvCreatePod obj0 (Some p0) None,
        EvCreateDummyPodObjectWithPrefix ''nginx-1-'' [''bar''] obj1,
        EvCreatePod obj1 (Some p1) None,
        EvWaitUntilPodReady (Namespace p0) (Name p0) None,
        EvWaitUntilPodReady (Namespace p1) (Name p1) None,
        EvGetStatsSummary (Some st1) None,
        EvGo_WaitUntilPodDeleted (Namespace p1) (Name p1),
        EvDeletePod (Namespace p1) (Name p1) None,
        EvRecv (Namespace p1) (Name p1) None,
        EvSleep deleteGracePeriodForProvider,
        EvGetStatsSummary (Some st2) None,
        EvGo_WaitUntilPodDeleted (Namespace p0) (Name p0),
        EvDeletePodImmediately (Namespace p0) (Name p0) None,
        EvRecv (Namespace p0) (Name p0) None,
        EvSleep deleteGracePeriodForProvider,
        EvGetStatsSummary (Some st3) None] @ teardownEvents p1 d1 @ teardownEvents p0 d0 \<and>
     (\<exists>i. findPodInPodStats (Some st1) (Some p0) = Returns (i, None)) \<and>
     (\<exists>i. findPodInPodStats (Some st1) (Some p1) = Returns (i, None)) \<and>
     findPodInPodStats (Some st2) (Some p1) = Returns (- 1, Some (notFoundInStats p1)) \<and>
     findPodInPodStats (Some st3) (Some p0) = Returns (- 1, Some (notFoundInStats p0)))"
  using TestPodLifecycle_passing_run [OF sim_lifecycle_passes] sim_lifecycle_passes
  by blast

theorem TestPodLifecycle_sibling_unchecked:
  "passes (run (TestPodLifecycle amnesic) emptyWorld) \<and>
   created (trace (snd (run (TestPodLifecycle amnesic) emptyWorld))) =
     [(Some lifecyclePod0, None), (Some lifecyclePod1, None)] \<and>
   snapshots (trace (snd (run (TestPodLifecycle amnesic) emptyWorld))) =
     [Some (summaryOf [podStatsOf lifecyclePod0, podStatsOf lifecyclePod1]),
      Some (summaryOf []), Some (summaryOf [])] \<and>
   trace (snd (run (TestPodLifecycle amnesic) emptyWorld)) ! 11 =
     EvGetStatsSummary (Some (summaryOf [])) None \<and>
   trace (snd (run (TestPodLifecycle amnesic) emptyWorld)) ! 13 =
     EvDeletePodImmediately (Namespace lifecyclePod0) (Name lifecyclePod0) None \<and>
   findPodInPodStats (Some (summaryOf [])) (Some lifecyclePod0) =
     Returns (- 1, Some (notFoundInStats lifecyclePod0))"
  by code_simp


section \<open>Absence is a value, and the caller decides\<close>

lemma created_append: "created (xs @ ys) = created xs @ created ys"
  by (induction xs rule: created.induct) simp_all

lemma created_teardown: "created (teardownEvents p e) = []"
  by (simp add: teardownEvents_def split: option.splits)

lemma snapshot_not_in_teardown: "EvGetStatsSummary st e \<notin> set (teardownEvents p e')"
  by (simp add: teardownEvents_def split: option.splits)

lemma fatal_not_in_teardown: "EvFatal l \<notin> set (teardownEvents p e)"
  by (simp add: teardownEvents_def split: option.splits)

lemma findPodInPodStats_no_match:
  "(\<forall>p \<in> set (Pods s). \<not> podMatches p pod) \<Longrightarrow>
     findPodInPodStats (Some s) (Some pod) = Returns (- 1, Some (notFoundInStats pod))"
  by (simp add: findPodInPodStats_Some rangePods_no_match)

lemma findPodInPodStats_found:
  assumes "findPodInPodStats (Some st) (Some pod) = Returns (a, None)"
  shows "\<exists>p \<in> set (Pods st). podMatches p pod"
proof -
  from assms have "rangePods 0 (Pods st) pod = (a, None)"
    by (simp add: findPodInPodStats_Some)
  from rangePods_found_index [OF this]
  have "nat a < length (Pods st)" "podMatches (Pods st ! nat a) pod"
    by auto
  then show ?thesis
    using nth_mem by blast
qed

lemma TestGetStatsSummary_absence_is_fatal:
  "(Some pod, None) \<in> set (created (trace (snd (run (TestGetStatsSummary f) w)))) \<and>
   EvGetStatsSummary (Some st) None \<in> set (trace (snd (run (TestGetStatsSummary f) w))) \<and>
   NodeName (Node st) = fw_NodeName f \<and> (\<forall>p \<in> set (Pods st). \<not> podMatches p pod) \<longrightarrow>
   fst (run (TestGetStatsSummary f) w) = Goexit \<and> failed (snd (run (TestGetStatsSummary f) w)) \<and>
   EvFatal (LogErr (notFoundInStats pod)) \<in> set (trace (snd (run (TestGetStatsSummary f) w)))"
  apply (rule wp_run [where P = "\<lambda>r.
   (Some pod, None) \<in> set (created (trace (snd r))) \<and>
   EvGetStatsSummary (Some st) None \<in> set (trace (snd r)) \<and>
   NodeName (Node st) = fw_NodeName f \<and> (\<forall>p \<in> set (Pods st). \<not> podMatches p pod) \<longrightarrow>
   fst r = Goexit \<and> failed (snd r) \<and>
   EvFatal (LogErr (notFoundInStats pod)) \<in> set (trace (snd r))"])
  apply (simp add: TestGetStatsSummary_def calls wp_rules created_append created_teardown
      snapshot_not_in_teardown fatal_not_in_teardown Let_def
      split: option.split completion.split)
  apply (auto simp: findPodInPodStats_no_match findPodInPodStats_Panics_iff
      dest: findPodInPodStats_found)
  done

lemma TestMandatoryConfigMaps_absence_is_success:
  "(Some pod, cerr) \<in> set (created (trace (snd (run (TestMandatoryConfigMaps f) w)))) \<and>
   EvGetStatsSummary (Some st) None \<in> set (trace (snd (run (TestMandatoryConfigMaps f) w))) \<and>
   (\<forall>p \<in> set (Pods st). \<not> podMatches p pod) \<longrightarrow>
   passes (run (TestMandatoryConfigMaps f) w)"
  apply (rule wp_run [where P = "\<lambda>r.
   (Some pod, cerr) \<in> set (created (trace (snd r))) \<and>
   EvGetStatsSummary (Some st) None \<in> set (trace (snd r)) \<and>
   (\<forall>p \<in> set (Pods st). \<not> podMatches p pod) \<longrightarrow> passes r"])
  apply (simp add: TestMandatoryConfigMaps_def fixtures calls wp_rules passes_def
      split: option.split completion.split list.split)
  apply (auto simp: findPodInPodStats_no_match findPodInPodStats_Panics_iff
      dest: findPodInPodStats_found)
  done


section \<open>Teardown\<close>

lemma deferred_deferredDeletePod:
  "deferred (deferredDeletePod f (Some p)) body s =
     (case body s of
        (r, s1) \<Rightarrow>
          (case DeletePod f (Namespace p) (Name p) (world s1) of
             (err, w') \<Rightarrow>
               (r, s1\<lparr>world := w', failed := failed s1 \<or> reportable err,
                      trace := trace s1 @ teardownEvents p err\<rparr>)))"
  by (auto simp: deferred_def deferredDeletePod_def andThen_def deref_def ret_def f_DeletePod_def
      call_def t_Error_def reportable_def teardownEvents_def
      split: prod.splits option.splits outcome.splits)

lemma teardownEvents_cases:
  "teardownEvents p None = [EvDeletePod (Namespace p) (Name p) None] \<and>
   (IsNotFound e \<longrightarrow>
      teardownEvents p (Some e) = [EvDeletePod (Namespace p) (Name p) (Some e)]) \<and>
   (\<not> IsNotFound e \<longrightarrow>
      teardownEvents p (Some e) =
        [EvDeletePod (Namespace p) (Name p) (Some e), EvError (LogErr e)])"
  by (simp add: teardownEvents_def)

lemma tornDownIn_last: "(reportable err \<longrightarrow> fl) \<Longrightarrow> tornDownIn p fl (teardownEvents p err)"
  unfolding tornDownIn_def
  by (rule exI [of _ "[]"], rule exI [of _ err], rule exI [of _ "[]"]) simp

lemma tornDownIn_before_last:
  "(reportable err \<longrightarrow> fl) \<Longrightarrow> tornDownIn p fl (teardownEvents p err @ teardownEvents p' err')"
  unfolding tornDownIn_def
  by (rule exI [of _ "[]"], rule exI [of _ err], rule exI [of _ "teardownEvents p' err'"]) auto

lemma tornDownIn_Cons: "tornDownIn p fl tr \<Longrightarrow> tornDownIn p fl (e # tr)"
proof -
  assume "tornDownIn p fl tr"
  then obtain pre err post where h: "tr = pre @ teardownEvents p err @ post"
    "post = [] \<or> (\<exists>p' err'. post = teardownEvents p' err')" "reportable err \<longrightarrow> fl"
    unfolding tornDownIn_def by blast
  from h(1) have "e # tr = (e # pre) @ teardownEvents p err @ post" by simp
  with h(2,3) show ?thesis
    unfolding tornDownIn_def by blast
qed

lemma tornDownIn_append: "tornDownIn p fl tr \<Longrightarrow> tornDownIn p fl (xs @ tr)"
  by (induction xs) (simp_all add: tornDownIn_Cons)

lemmas tornDownIn_rules = tornDownIn_last tornDownIn_before_last tornDownIn_Cons
  tornDownIn_append

lemma TestGetStatsSummary_tears_down:
  "(Some p, None) \<in> set (created (trace (snd (run (TestGetStatsSummary f) w)))) \<longrightarrow>
   tearsDown p (run (TestGetStatsSummary f) w)"
  apply (rule wp_run [where P = "\<lambda>r.
     (Some p, None) \<in> set (created (trace (snd r))) \<longrightarrow> tearsDown p r"])
  apply (simp add: TestGetStatsSummary_def calls wp_rules created_append created_teardown
      tearsDown_def Let_def tornDownIn_rules split: option.split completion.split)
  done

lemma TestPodLifecycle_tears_down:
  "(Some p, None) \<in> set (created (trace (snd (run (TestPodLifecycle f) w)))) \<longrightarrow>
   tearsDown p (run (TestPodLifecycle f) w)"
  apply (rule wp_run [where P = "\<lambda>r.
     (Some p, None) \<in> set (created (trace (snd r))) \<longrightarrow> tearsDown p r"])
  apply (simp add: TestPodLifecycle_def calls wp_rules created_append created_teardown
      tearsDown_def Let_def tornDownIn_rules split: option.split completion.split)
  apply (auto simp: tornDownIn_rules)
  done

lemma TestOptionalSecrets_tears_down:
  "(Some p, cerr) \<in> set (created (trace (snd (run (TestOptionalSecrets f) w)))) \<longrightarrow>
   tearsDown p (run (TestOptionalSecrets f) w)"
  apply (rule wp_run [where P = "\<lambda>r.
     (Some p, cerr) \<in> set (created (trace (snd r))) \<longrightarrow> tearsDown p r"])
  apply (simp add: TestOptionalSecrets_def fixtures calls wp_rules created_append
      created_teardown tearsDown_def Let_def tornDownIn_rules
      split: option.split completion.split list.split)
  done

lemma TestOptionalConfigMaps_tears_down:
  "(Some p, cerr) \<in> set (created (trace (snd (run (TestOptionalConfigMaps f) w)))) \<longrightarrow>
   tearsDown p (run (TestOptionalConfigMaps f) w)"
  apply (rule wp_run [where P = "\<lambda>r.
     (Some p, cerr) \<in> set (created (trace (snd r))) \<longrightarrow> tearsDown p r"])
  apply (simp add: TestOptionalConfigMaps_def fixtures calls wp_rules created_append
      created_teardown tearsDown_def Let_def tornDownIn_rules
      split: option.split completion.split list.split)
  done


lemma blind_stats_run:
  "(Some statsPod, None) \<in> set (created (trace (snd (run (TestGetStatsSummary blind) emptyWorld)))) \<and>
   EvGetStatsSummary (Some (summaryOf [])) None
     \<in> set (trace (snd (run (TestGetStatsSummary blind) emptyWorld))) \<and>
   NodeName (Node (summaryOf [])) = fw_NodeName blind \<and>
   Pods (summaryOf []) = []"
  by code_simp

lemma sim_mandatory_configmaps_run:
  "(Some mandatoryConfigMapsPod, None)
     \<in> set (created (trace (snd (run (TestMandatoryConfigMaps sim) emptyWorld)))) \<and>
   EvGetStatsSummary (Some (summaryOf [])) None
     \<in> set (trace (snd (run (TestMandatoryConfigMaps sim) emptyWorld)))"
  by code_simp

text \<open>
  C3. When no record of the snapshot matches the pod, \<open>findPodInPodStats\<close> returns:
  it does not panic, and what it returns is the index \<open>-1\<close> with the error value that
  tells the caller the pod was not found. The caller decides what that means:
  \<open>TestGetStatsSummary\<close> stops with \<^verbatim>\<open>t.Fatal\<close> on it, while \<open>TestMandatoryConfigMaps\<close>
  passes on it.
\<close>

theorem findPodInPodStats_absence_is_returned:
  "((\<forall>p \<in> set (Pods s). \<not> podMatches p pod) \<longrightarrow>
      findPodInPodStats (Some s) (Some pod) = Returns (- 1, Some (notFoundInStats pod)) \<and>
      findPodInPodStats (Some s) (Some pod) \<noteq> Panics) \<and>
   ((Some podA, None) \<in> set (created (trace (snd (run (TestGetStatsSummary fA) wA)))) \<and>
    EvGetStatsSummary (Some stA) None \<in> set (trace (snd (run (TestGetStatsSummary fA) wA))) \<and>
    NodeName (Node stA) = fw_NodeName fA \<and> (\<forall>p \<in> set (Pods stA). \<not> podMatches p podA) \<longrightarrow>
      fst (run (TestGetStatsSummary fA) wA) = Goexit \<and>
      failed (snd (run (TestGetStatsSummary fA) wA)) \<and>
      EvFatal (LogErr (notFoundInStats podA))
        \<in> set (trace (snd (run (TestGetStatsSummary fA) wA)))) \<and>
   ((Some podB, cerrB) \<in> set (created (trace (snd (run (TestMandatoryConfigMaps fB) wB)))) \<and>
    EvGetStatsSummary (Some stB) None
      \<in> set (trace (snd (run (TestMandatoryConfigMaps fB) wB))) \<and>
    (\<forall>p \<in> set (Pods stB). \<not> podMatches p podB) \<longrightarrow>
      passes (run (TestMandatoryConfigMaps fB) wB))"
  using TestGetStatsSummary_absence_is_fatal [of podA fA wA stA]
    TestMandatoryConfigMaps_absence_is_success [of podB cerrB fB wB stB]
  by (simp add: findPodInPodStats_no_match)

theorem findPodInPodStats_absence_is_returned_witness:
  "findPodInPodStats (Some (summaryOf [staleRecord, otherRecord])) (Some examplePod)
     = Returns (- 1, Some (notFoundInStats examplePod)) \<and>
   \<not> podMatches staleRecord examplePod \<and> \<not> podMatches otherRecord examplePod \<and>
   (Some statsPod, None) \<in> set (created (trace (snd (run (TestGetStatsSummary blind) emptyWorld)))) \<and>
   EvGetStatsSummary (Some (summaryOf [])) None
     \<in> set (trace (snd (run (TestGetStatsSummary blind) emptyWorld))) \<and>
   fst (run (TestGetStatsSummary blind) emptyWorld) = Goexit \<and>
   failed (snd (run (TestGetStatsSummary blind) emptyWorld)) \<and>
   EvFatal (LogErr (notFoundInStats statsPod))
     \<in> set (trace (snd (run (TestGetStatsSummary blind) emptyWorld))) \<and>
   (Some mandatoryConfigMapsPod, None)
     \<in> set (created (trace (snd (run (TestMandatoryConfigMaps sim) emptyWorld)))) \<and>
   EvGetStatsSummary (Some (summaryOf [])) None
     \<in> set (trace (snd (run (TestMandatoryConfigMaps sim) emptyWorld))) \<and>
   passes (run (TestMandatoryConfigMaps sim) emptyWorld)"
  using findPodInPodStats_absence_is_returned
      [of "summaryOf [staleRecord, otherRecord]" examplePod statsPod blind emptyWorld
        "summaryOf []" mandatoryConfigMapsPod None sim emptyWorld "summaryOf []"]
    blind_stats_run sim_mandatory_configmaps_run
  by (simp add: summaryOf_def podMatches_def staleRecord_def otherRecord_def examplePod_def)

text \<open>
  C8. The code at the failing input: against an API that refuses every submission,
  \<open>TestGetStatsSummary\<close> stops right after \<^verbatim>\<open>f.CreatePod\<close>, as the claim says, but the four
  scenarios that drop the error go on. \<open>TestMandatoryConfigMaps\<close> fetches the stats
  summary and passes; \<open>TestMandatorySecrets\<close> fetches the summary and requests a delete;
  \<open>TestOptionalSecrets\<close> and \<open>TestOptionalConfigMaps\<close> wait for readiness. When the method
  returns a nil pod with the error, \<open>TestMandatorySecrets\<close> still fetches the summary and
  then panics.
\<close>

theorem CreatePod_error_is_dropped:
  "created (trace (snd (run (TestGetStatsSummary rejecting) emptyWorld)))
     = [(Some emptyPod, Some forbidden)] \<and>
   fst (run (TestGetStatsSummary rejecting) emptyWorld) = Goexit \<and>
   drop 2 (trace (snd (run (TestGetStatsSummary rejecting) emptyWorld)))
     = [EvFatal (LogErr forbidden)] \<and>
   created (trace (snd (run (TestMandatoryConfigMaps rejecting) emptyWorld)))
     = [(Some emptyPod, Some forbidden)] \<and>
   drop 2 (trace (snd (run (TestMandatoryConfigMaps rejecting) emptyWorld)))
     = [EvGetStatsSummary (Some (summaryOf [])) None] \<and>
   passes (run (TestMandatoryConfigMaps rejecting) emptyWorld) \<and>
   created (trace (snd (run (TestMandatorySecrets rejecting) emptyWorld)))
     = [(Some emptyPod, Some forbidden)] \<and>
   drop 2 (trace (snd (run (TestMandatorySecrets rejecting) emptyWorld)))
     = [EvGetStatsSummary (Some (summaryOf [])) None,
        EvGo_WaitUntilPodDeleted [] [],
        EvDeletePod [] [] (Some (StatusError StatusReasonNotFound ''pods not found'')),
        EvFatal (LogErr (StatusError StatusReasonNotFound ''pods not found''))] \<and>
   drop 2 (trace (snd (run (TestOptionalSecrets rejecting) emptyWorld)))
     = [EvWaitUntilPodReady [] [] (Some (errorString ''timed out waiting for the condition'')),
        EvFatal (LogErr (errorString ''timed out waiting for the condition'')),
        EvDeletePod [] [] (Some (StatusError StatusReasonNotFound ''pods not found''))] \<and>
   drop 2 (trace (snd (run (TestOptionalConfigMaps rejecting) emptyWorld)))
     = [EvWaitUntilPodReady [] [] (Some (errorString ''timed out waiting for the condition'')),
        EvFatal (LogErr (errorString ''timed out waiting for the condition'')),
        EvDeletePod [] [] (Some (StatusError StatusReasonNotFound ''pods not found''))] \<and>
   created (trace (snd (run (TestMandatorySecrets rejectingNil) emptyWorld)))
     = [(None, Some forbidden)] \<and>
   drop 2 (trace (snd (run (TestMandatorySecrets rejectingNil) emptyWorld)))
     = [EvGetStatsSummary (Some (summaryOf [])) None] \<and>
   fst (run (TestMandatorySecrets rejectingNil) emptyWorld) = Panicking"
  by code_simp

lemma sim_teardown_runs:
  "(Some statsPod, None) \<in> set (created (trace (snd (run (TestGetStatsSummary sim) emptyWorld)))) \<and>
   (Some lifecyclePod1, None) \<in> set (created (trace (snd (run (TestPodLifecycle sim) emptyWorld)))) \<and>
   (Some optionalSecretsPod, None)
     \<in> set (created (trace (snd (run (TestOptionalSecrets sim) emptyWorld)))) \<and>
   (Some optionalConfigMapsPod, None)
     \<in> set (created (trace (snd (run (TestOptionalConfigMaps sim) emptyWorld))))"
  by code_simp

text \<open>
  C9, as amended. The deferred closure runs after the rest of the body however the body
  ended, and leaves that outcome as it is; it requests the deletion of the pod; a nil
  error and a not-found error leave no further trace, any other error is reported with
  \<^verbatim>\<open>t.Error\<close>, which marks the test failed. \<open>TestGetStatsSummary\<close>, \<open>TestPodLifecycle\<close>
  (for both of its pods), \<open>TestOptionalSecrets\<close> and \<open>TestOptionalConfigMaps\<close> register
  it: every run that got a pod from \<^verbatim>\<open>f.CreatePod\<close> (with a nil error, in the two
  scenarios that check it) ends with the teardown of that pod.
\<close>

theorem deferred_teardown_runs_and_reports:
  "deferred (deferredDeletePod f (Some p)) body s =
     (case body s of
        (r, s1) \<Rightarrow>
          (case DeletePod f (Namespace p) (Name p) (world s1) of
             (err, w') \<Rightarrow>
               (r, s1\<lparr>world := w', failed := failed s1 \<or> reportable err,
                      trace := trace s1 @ teardownEvents p err\<rparr>))) \<and>
   teardownEvents p None = [EvDeletePod (Namespace p) (Name p) None] \<and>
   \<not> reportable None \<and>
   (IsNotFound e \<longrightarrow>
      teardownEvents p (Some e) = [EvDeletePod (Namespace p) (Name p) (Some e)] \<and>
      \<not> reportable (Some e)) \<and>
   (\<not> IsNotFound e' \<longrightarrow>
      teardownEvents p (Some e') =
        [EvDeletePod (Namespace p) (Name p) (Some e'), EvError (LogErr e')] \<and>
      reportable (Some e')) \<and>
   ((Some pA, None) \<in> set (created (trace (snd (run (TestGetStatsSummary f) wA)))) \<longrightarrow>
      tearsDown pA (run (TestGetStatsSummary f) wA)) \<and>
   ((Some pB, None) \<in> set (created (trace (snd (run (TestPodLifecycle f) wB)))) \<longrightarrow>
      tearsDown pB (run (TestPodLifecycle f) wB)) \<and>
   ((Some pC, cerrC) \<in> set (created (trace (snd (run (TestOptionalSecrets f) wC)))) \<longrightarrow>
      tearsDown pC (run (TestOptionalSecrets f) wC)) \<and>
   ((Some pD, cerrD) \<in> set (created (trace (snd (run (TestOptionalConfigMaps f) wD)))) \<longrightarrow>
      tearsDown pD (run (TestOptionalConfigMaps f) wD))"
  using TestGetStatsSummary_tears_down [of pA f wA] TestPodLifecycle_tears_down [of pB f wB]
    TestOptionalSecrets_tears_down [of pC cerrC f wC]
    TestOptionalConfigMaps_tears_down [of pD cerrD f wD]
  by (simp add: deferred_deferredDeletePod teardownEvents_def reportable_def)

theorem deferred_teardown_runs_and_reports_witness:
  "IsNotFound (StatusError StatusReasonNotFound ''pods not found'') \<and>
   \<not> reportable (Some (StatusError StatusReasonNotFound ''pods not found'')) \<and>
   \<not> IsNotFound refused \<and> reportable (Some refused) \<and>
   teardownEvents statsPod (Some refused) =
     [EvDeletePod (Namespace statsPod) (Name statsPod) (Some refused), EvError (LogErr refused)] \<and>
   (Some statsPod, None) \<in> set (created (trace (snd (run (TestGetStatsSummary sim) emptyWorld)))) \<and>
   tearsDown statsPod (run (TestGetStatsSummary sim) emptyWorld) \<and>
   (Some lifecyclePod1, None) \<in> set (created (trace (snd (run (TestPodLifecycle sim) emptyWorld)))) \<and>
   tearsDown lifecyclePod1 (run (TestPodLifecycle sim) emptyWorld) \<and>
   (Some optionalSecretsPod, None)
     \<in> set (created (trace (snd (run (TestOptionalSecrets sim) emptyWorld)))) \<and>
   tearsDown optionalSecretsPod (run (TestOptionalSecrets sim) emptyWorld) \<and>
   (Some optionalConfigMapsPod, None)
     \<in> set (created (trace (snd (run (TestOptionalConfigMaps sim) emptyWorld)))) \<and>
   tearsDown optionalConfigMapsPod (run (TestOptionalConfigMaps sim) emptyWorld)"
  using deferred_teardown_runs_and_reports
      [where f = sim and p = statsPod and body = "ret ()"
        and s = "\<lparr>world = emptyWorld, failed = False, trace = []\<rparr>"
        and e = "StatusError StatusReasonNotFound ''pods not found''"
        and e' = refused and pA = statsPod and wA = emptyWorld and pB = lifecyclePod1
        and wB = emptyWorld and pC = optionalSecretsPod and cerrC = None and wC = emptyWorld
        and pD = optionalConfigMapsPod and cerrD = None and wD = emptyWorld]
    sim_teardown_runs
  by (simp add: refused_def)

theorem teardown_failure_fails_the_scenario:
  "fst (run (TestGetStatsSummary stubborn) emptyWorld) = Normal () \<and>
   failed (snd (run (TestGetStatsSummary stubborn) emptyWorld)) \<and>
   \<not> passes (run (TestGetStatsSummary stubborn) emptyWorld) \<and>
   drop 4 (trace (snd (run (TestGetStatsSummary stubborn) emptyWorld))) =
     [EvDeletePod ''default'' ''nginx-0-x'' (Some refused), EvError (LogErr refused)] \<and>
   \<not> IsNotFound refused \<and>
   passes (run (TestGetStatsSummary sim) emptyWorld) \<and>
   passes (run (TestMandatoryConfigMaps sim) emptyWorld) \<and>
   created (trace (snd (run (TestMandatoryConfigMaps sim) emptyWorld))) =
     [(Some mandatoryConfigMapsPod, None)] \<and>
   deleteRequests (trace (snd (run (TestMandatoryConfigMaps sim) emptyWorld))) = [] \<and>
   apiPods (world (snd (run (TestMandatoryConfigMaps sim) emptyWorld))) =
     [mandatoryConfigMapsPod]"
  by code_simp


section \<open>The provider modelled from the spec\<close>

lemma fresh_inj: "fresh a = fresh b \<longleftrightarrow> a = b"
proof
  assume "fresh a = fresh b"
  then have "length (fresh a) = length (fresh b)" by simp
  then show "a = b" by (simp add: fresh_def)
qed simp

lemma sim_simps:
  "CreateDummyPodObjectWithPrefix sim = sim_CreateDummyPodObjectWithPrefix"
  "CreatePod sim = sim_CreatePod"
  "DeletePod sim = sim_DeletePod"
  "DeletePodImmediately sim = sim_DeletePod"
  "WaitUntilPodReady sim = sim_WaitUntilPodReady"
  "WaitUntilPodDeleted sim = sim_WaitUntilPodDeleted"
  "GetStatsSummary sim = sim_GetStatsSummary"
  by (simp_all add: sim_def)

lemmas sim_defs = sim_CreateDummyPodObjectWithPrefix_def sim_CreatePod_def sim_DeletePod_def
  sim_WaitUntilPodReady_def sim_WaitUntilPodDeleted_def sim_GetStatsSummary_def

lemma serve_uidsHandedOut: "uidsHandedOut w \<Longrightarrow> uidsHandedOut (serve r w)"
proof (cases r)
  case (ReqCreatePod obj)
  assume inv: "uidsHandedOut w"
  show ?thesis
  proof (cases obj)
    case None
    with inv ReqCreatePod show ?thesis
      by (simp add: sim_simps sim_defs)
  next
    case (Some o')
    have "\<forall>q \<in> set (providerPods w). \<exists>k < Suc (nextId w). UID q = fresh k"
      using inv less_Suc_eq unfolding uidsHandedOut_def by blast
    with Some ReqCreatePod show ?thesis
      by (auto simp: sim_simps sim_defs uidsHandedOut_def Let_def)
  qed
next
  case (ReqCreateDummyPodObjectWithPrefix prefix names)
  assume "uidsHandedOut w"
  then have "\<forall>q \<in> set (providerPods w). \<exists>k < Suc (nextId w). UID q = fresh k"
    using less_Suc_eq unfolding uidsHandedOut_def by blast
  with ReqCreateDummyPodObjectWithPrefix show ?thesis
    by (simp add: sim_simps sim_defs uidsHandedOut_def)
qed (auto simp: sim_simps sim_defs uidsHandedOut_def)

lemma serveAll_uidsHandedOut: "uidsHandedOut w \<Longrightarrow> uidsHandedOut (serveAll rs w)"
  by (induction rs arbitrary: w) (simp_all add: serve_uidsHandedOut)

lemma startWorld_uidsHandedOut: "uidsHandedOut (startWorld cms secs)"
  by (simp add: uidsHandedOut_def startWorld_def)





lemma unblocked_pod_reported:
  assumes "uidsHandedOut w0" and "\<not> podBlocked w0 obj"
    and "CreatePod sim (Some obj) w0 = ((pod, err), w1)"
  shows "\<exists>p. pod = Some p \<and> err = None \<and> p \<in> set (providerPods w1) \<and>
    fst (WaitUntilPodReady sim (Namespace p) (Name p) w1) = None \<and>
    (\<exists>st. snapshotOf w1 = Some st \<and>
       findPodInPodStats (Some st) (Some p) = Returns (int (length (providerPods w0)), None) \<and>
       length (stats_Containers (Pods st ! length (providerPods w0))) =
         length (Containers (Spec p)))"
proof -
  define p where "p = obj\<lparr>UID := fresh (nextId w0)\<rparr>"
  have nb: "\<not> podBlocked w0 p"
    using assms(2) by (simp add: podBlocked_def p_def)
  with assms(3) have res: "pod = Some p" "err = None"
    and w1: "providerPods w1 = providerPods w0 @ [p]"
    by (auto simp: sim_simps sim_defs Let_def p_def)
  have "\<forall>q \<in> set (providerPods w0). UID q \<noteq> UID p"
    using assms(1) unfolding uidsHandedOut_def by (auto simp: fresh_inj p_def)
  then have pre: "\<forall>r \<in> set (map podStatsOf (providerPods w0)). \<not> podMatches r p"
    by (auto simp: podMatches_def podStatsOf_def)
  have m: "podMatches (podStatsOf p) p"
    by (simp add: podMatches_def podStatsOf_def)
  define st where "st = \<lparr>Node = \<lparr>NodeName = sim_NodeName\<rparr>,
    Pods = map podStatsOf (providerPods w0) @ podStatsOf p # []\<rparr>"
  have snap: "snapshotOf w1 = Some st"
    by (simp add: snapshotOf_def sim_simps sim_defs w1 st_def)
  have "findPodInPodStats (Some st) (Some p) = Returns (int (length (providerPods w0)), None)"
    using rangePods_first_match [OF pre m, of 0 "[]"]
    by (simp add: findPodInPodStats_Some st_def)
  moreover have "length (stats_Containers (Pods st ! length (providerPods w0))) =
      length (Containers (Spec p))"
    by (simp add: st_def nth_append podStatsOf_def)
  moreover have "fst (WaitUntilPodReady sim (Namespace p) (Name p) w1) = None"
    by (simp add: sim_simps sim_defs w1 isPod_def list_ex_iff)
  moreover have "p \<in> set (providerPods w1)"
    by (simp add: w1)
  ultimately show ?thesis
    using res snap by blast
qed


section \<open>Scenarios with references to the external stores\<close>

lemma snapshots_append: "snapshots (xs @ ys) = snapshots xs @ snapshots ys"
  by (induction xs rule: snapshots.induct) simp_all

lemma snapshots_teardown: "snapshots (teardownEvents p e) = []"
  by (simp add: teardownEvents_def split: option.splits)

lemma create_not_in_teardown: "EvCreatePod a b c \<notin> set (teardownEvents p e)"
  by (simp add: teardownEvents_def split: option.splits)

lemma ready_not_in_teardown: "EvWaitUntilPodReady ns name e' \<notin> set (teardownEvents p e)"
  by (simp add: teardownEvents_def split: option.splits)

lemmas not_in_teardown = create_not_in_teardown ready_not_in_teardown snapshot_not_in_teardown
  fatal_not_in_teardown no_sleep_in_teardown



lemma optional_never_blocks:
  "\<not> unresolvedMandatory v (secretEnv n r k True)"
  "\<not> unresolvedMandatory v (configMapEnv n r k True)"
  by (simp_all add: unresolvedMandatory_def secretEnv_def configMapEnv_def)





lemma TestOptionalSecrets_submits_optional:
  "EvCreatePod (Some obj) pod cerr \<in> set (trace (snd (run (TestOptionalSecrets f) w))) \<longrightarrow>
   (\<exists>c cs. Containers (Spec obj) = c # cs \<and>
      Env c = [secretEnv ''ENVIRONMENTVARIABLE'' ''secretname0'' ''key'' True] \<and>
      \<not> list_ex (unresolvedMandatory v) (Env c))"
  apply (rule wp_run [where P = "\<lambda>r.
     EvCreatePod (Some obj) pod cerr \<in> set (trace (snd r)) \<longrightarrow>
     (\<exists>c cs. Containers (Spec obj) = c # cs \<and>
        Env c = [secretEnv ''ENVIRONMENTVARIABLE'' ''secretname0'' ''key'' True] \<and>
        \<not> list_ex (unresolvedMandatory v) (Env c))"])
  apply (simp add: TestOptionalSecrets_def fixtures calls wp_rules not_in_teardown
      split: option.split completion.split list.split)
  apply (auto simp: optional_never_blocks)
  done

lemma TestOptionalConfigMaps_submits_optional:
  "EvCreatePod (Some obj) pod cerr \<in> set (trace (snd (run (TestOptionalConfigMaps f) w))) \<longrightarrow>
   (\<exists>c cs. Containers (Spec obj) = c # cs \<and>
      Env c = [configMapEnv ''ENVIRONMENTVARIABLE'' ''configname0'' ''key'' True] \<and>
      \<not> list_ex (unresolvedMandatory v) (Env c))"
  apply (rule wp_run [where P = "\<lambda>r.
     EvCreatePod (Some obj) pod cerr \<in> set (trace (snd r)) \<longrightarrow>
     (\<exists>c cs. Containers (Spec obj) = c # cs \<and>
        Env c = [configMapEnv ''ENVIRONMENTVARIABLE'' ''configname0'' ''key'' True] \<and>
        \<not> list_ex (unresolvedMandatory v) (Env c))"])
  apply (simp add: TestOptionalConfigMaps_def fixtures calls wp_rules not_in_teardown
      split: option.split completion.split list.split)
  apply (auto simp: optional_never_blocks)
  done

lemma TestOptionalSecrets_passing_run:
  "passes (run (TestOptionalSecrets f) w) \<longrightarrow>
   (\<exists>p cerr st i.
      created (trace (snd (run (TestOptionalSecrets f) w))) = [(Some p, cerr)] \<and>
      EvWaitUntilPodReady (Namespace p) (Name p) None
        \<in> set (trace (snd (run (TestOptionalSecrets f) w))) \<and>
      snapshots (trace (snd (run (TestOptionalSecrets f) w))) = [Some st] \<and>
      findPodInPodStats (Some st) (Some p) = Returns (i, None))"
  apply (rule wp_run [where P = "\<lambda>r. passes r \<longrightarrow>
   (\<exists>p cerr st i.
      created (trace (snd r)) = [(Some p, cerr)] \<and>
      EvWaitUntilPodReady (Namespace p) (Name p) None \<in> set (trace (snd r)) \<and>
      snapshots (trace (snd r)) = [Some st] \<and>
      findPodInPodStats (Some st) (Some p) = Returns (i, None))"])
  apply (simp add: TestOptionalSecrets_def fixtures calls wp_rules passes_def
      created_append created_teardown snapshots_append snapshots_teardown
      split: option.split completion.split list.split)
  apply (auto simp: findPodInPodStats_Returns_iff)
  done

lemma TestOptionalConfigMaps_passing_run:
  "passes (run (TestOptionalConfigMaps f) w) \<longrightarrow>
   (\<exists>p cerr st i.
      created (trace (snd (run (TestOptionalConfigMaps f) w))) = [(Some p, cerr)] \<and>
      EvWaitUntilPodReady (Namespace p) (Name p) None
        \<in> set (trace (snd (run (TestOptionalConfigMaps f) w))) \<and>
      snapshots (trace (snd (run (TestOptionalConfigMaps f) w))) = [Some st] \<and>
      findPodInPodStats (Some st) (Some p) = Returns (i, None))"
  apply (rule wp_run [where P = "\<lambda>r. passes r \<longrightarrow>
   (\<exists>p cerr st i.
      created (trace (snd r)) = [(Some p, cerr)] \<and>
      EvWaitUntilPodReady (Namespace p) (Name p) None \<in> set (trace (snd r)) \<and>
      snapshots (trace (snd r)) = [Some st] \<and>
      findPodInPodStats (Some st) (Some p) = Returns (i, None))"])
  apply (simp add: TestOptionalConfigMaps_def fixtures calls wp_rules passes_def
      created_append created_teardown snapshots_append snapshots_teardown
      split: option.split completion.split list.split)
  apply (auto simp: findPodInPodStats_Returns_iff)
  done







lemma sim_optional_runs:
  "EvCreatePod (Some (optionalSecretsPod\<lparr>UID := []\<rparr>)) (Some optionalSecretsPod) None
     \<in> set (trace (snd (run (TestOptionalSecrets sim) emptyWorld))) \<and>
   EvCreatePod (Some (optionalConfigMapsPod\<lparr>UID := []\<rparr>)) (Some optionalConfigMapsPod) None
     \<in> set (trace (snd (run (TestOptionalConfigMaps sim) emptyWorld))) \<and>
   passes (run (TestOptionalSecrets sim) emptyWorld) \<and>
   passes (run (TestOptionalConfigMaps sim) emptyWorld)"
  by code_simp

lemma sim_unblocked_creation:
  "\<not> podBlocked (serveAll [] (startWorld [] [])) (optionalSecretsPod\<lparr>UID := []\<rparr>) \<and>
   fst (CreatePod sim (Some (optionalSecretsPod\<lparr>UID := []\<rparr>)) (serveAll [] (startWorld [] [])))
     = (Some (optionalSecretsPod\<lparr>UID := ''x''\<rparr>), None)"
  by code_simp

text \<open>
  C7, as amended. The first container of the object \<open>TestOptionalSecrets\<close> and
  \<open>TestOptionalConfigMaps\<close> submit carries one reference, marked optional, so nothing in
  it is an unresolved mandatory reference, whatever the stores hold. In the provider
  modelled from the spec, a workload without an unresolved mandatory reference is ready
  as soon as it is accepted and is in the telemetry snapshot with one record per
  container. Both scenarios assert readiness and presence: a passing run has waited for
  the created pod to be ready without error and has found it in the one snapshot it
  fetched. They do not compare the number of container records.
\<close>

theorem optional_reference_is_tolerated_and_presence_asserted:
  "(EvCreatePod (Some objS) podS cerrS \<in> set (trace (snd (run (TestOptionalSecrets f) w))) \<longrightarrow>
      (\<exists>c cs. Containers (Spec objS) = c # cs \<and>
         Env c = [secretEnv ''ENVIRONMENTVARIABLE'' ''secretname0'' ''key'' True] \<and>
         \<not> list_ex (unresolvedMandatory v) (Env c))) \<and>
   (EvCreatePod (Some objC) podC cerrC
      \<in> set (trace (snd (run (TestOptionalConfigMaps f) w))) \<longrightarrow>
      (\<exists>c cs. Containers (Spec objC) = c # cs \<and>
         Env c = [configMapEnv ''ENVIRONMENTVARIABLE'' ''configname0'' ''key'' True] \<and>
         \<not> list_ex (unresolvedMandatory v) (Env c))) \<and>
   (\<not> podBlocked (serveAll rs0 (startWorld cms secs)) obj \<and>
    CreatePod sim (Some obj) (serveAll rs0 (startWorld cms secs)) = ((pod, err), w1) \<longrightarrow>
      (\<exists>p st i. pod = Some p \<and> err = None \<and> isReady w1 p \<and>
         fst (WaitUntilPodReady sim (Namespace p) (Name p) w1) = None \<and>
         snapshotOf w1 = Some st \<and>
         findPodInPodStats (Some st) (Some p) = Returns (int i, None) \<and>
         length (stats_Containers (Pods st ! i)) = length (Containers (Spec p)))) \<and>
   (passes (run (TestOptionalSecrets f) w) \<longrightarrow>
      (\<exists>p cerr st i.
         created (trace (snd (run (TestOptionalSecrets f) w))) = [(Some p, cerr)] \<and>
         EvWaitUntilPodReady (Namespace p) (Name p) None
           \<in> set (trace (snd (run (TestOptionalSecrets f) w))) \<and>
         snapshots (trace (snd (run (TestOptionalSecrets f) w))) = [Some st] \<and>
         findPodInPodStats (Some st) (Some p) = Returns (i, None))) \<and>
   (passes (run (TestOptionalConfigMaps f) w) \<longrightarrow>
      (\<exists>p cerr st i.
         created (trace (snd (run (TestOptionalConfigMaps f) w))) = [(Some p, cerr)] \<and>
         EvWaitUntilPodReady (Namespace p) (Name p) None
           \<in> set (trace (snd (run (TestOptionalConfigMaps f) w))) \<and>
         snapshots (trace (snd (run (TestOptionalConfigMaps f) w))) = [Some st] \<and>
         findPodInPodStats (Some st) (Some p) = Returns (i, None)))"
proof -
  have provider: "\<not> podBlocked (serveAll rs0 (startWorld cms secs)) obj \<and>
    CreatePod sim (Some obj) (serveAll rs0 (startWorld cms secs)) = ((pod, err), w1) \<longrightarrow>
      (\<exists>p st i. pod = Some p \<and> err = None \<and> isReady w1 p \<and>
         fst (WaitUntilPodReady sim (Namespace p) (Name p) w1) = None \<and>
         snapshotOf w1 = Some st \<and>
         findPodInPodStats (Some st) (Some p) = Returns (int i, None) \<and>
         length (stats_Containers (Pods st ! i)) = length (Containers (Spec p)))"
  proof
    assume h: "\<not> podBlocked (serveAll rs0 (startWorld cms secs)) obj \<and>
      CreatePod sim (Some obj) (serveAll rs0 (startWorld cms secs)) = ((pod, err), w1)"
    define w0 where "w0 = serveAll rs0 (startWorld cms secs)"
    have inv: "uidsHandedOut w0"
      unfolding w0_def by (rule serveAll_uidsHandedOut) (rule startWorld_uidsHandedOut)
    from h have "\<not> podBlocked w0 obj" "CreatePod sim (Some obj) w0 = ((pod, err), w1)"
      by (simp_all add: w0_def)
    from unblocked_pod_reported [OF inv this]
    show "\<exists>p st i. pod = Some p \<and> err = None \<and> isReady w1 p \<and>
         fst (WaitUntilPodReady sim (Namespace p) (Name p) w1) = None \<and>
         snapshotOf w1 = Some st \<and>
         findPodInPodStats (Some st) (Some p) = Returns (int i, None) \<and>
         length (stats_Containers (Pods st ! i)) = length (Containers (Spec p))"
      unfolding isReady_def by blast
  qed
  show ?thesis
    using TestOptionalSecrets_submits_optional [of objS podS cerrS f w v]
      TestOptionalConfigMaps_submits_optional [of objC podC cerrC f w v]
      TestOptionalSecrets_passing_run [of f w]
      TestOptionalConfigMaps_passing_run [of f w]
      provider
    by blast
qed

theorem optional_reference_is_tolerated_and_presence_asserted_witness:
  "EvCreatePod (Some (optionalSecretsPod\<lparr>UID := []\<rparr>)) (Some optionalSecretsPod) None
     \<in> set (trace (snd (run (TestOptionalSecrets sim) emptyWorld))) \<and>
   EvCreatePod (Some (optionalConfigMapsPod\<lparr>UID := []\<rparr>)) (Some optionalConfigMapsPod) None
     \<in> set (trace (snd (run (TestOptionalConfigMaps sim) emptyWorld))) \<and>
   (\<exists>c cs. Containers (Spec (optionalSecretsPod\<lparr>UID := []\<rparr>)) = c # cs \<and>
      Env c = [secretEnv ''ENVIRONMENTVARIABLE'' ''secretname0'' ''key'' True] \<and>
      \<not> list_ex (unresolvedMandatory emptyWorld) (Env c)) \<and>
   (\<exists>c cs. Containers (Spec (optionalConfigMapsPod\<lparr>UID := []\<rparr>)) = c # cs \<and>
      Env c = [configMapEnv ''ENVIRONMENTVARIABLE'' ''configname0'' ''key'' True] \<and>
      \<not> list_ex (unresolvedMandatory emptyWorld) (Env c)) \<and>
   \<not> podBlocked (serveAll [] (startWorld [] [])) (optionalSecretsPod\<lparr>UID := []\<rparr>) \<and>
   (\<exists>st i.
      isReady
        (snd (CreatePod sim (Some (optionalSecretsPod\<lparr>UID := []\<rparr>))
           (serveAll [] (startWorld [] []))))
        (optionalSecretsPod\<lparr>UID := ''x''\<rparr>) \<and>
      snapshotOf
        (snd (CreatePod sim (Some (optionalSecretsPod\<lparr>UID := []\<rparr>))
           (serveAll [] (startWorld [] [])))) = Some st \<and>
      findPodInPodStats (Some st) (Some (optionalSecretsPod\<lparr>UID := ''x''\<rparr>))
        = Returns (int i, None) \<and>
      length (stats_Containers (Pods st ! i))
        = length (Containers (Spec (optionalSecretsPod\<lparr>UID := ''x''\<rparr>)))) \<and>
   passes (run (TestOptionalSecrets sim) emptyWorld) \<and>
   (\<exists>p cerr st i.
      created (trace (snd (run (TestOptionalSecrets sim) emptyWorld))) = [(Some p, cerr)] \<and>
      EvWaitUntilPodReady (Namespace p) (Name p) None
        \<in> set (trace (snd (run (TestOptionalSecrets sim) emptyWorld))) \<and>
      snapshots (trace (snd (run (TestOptionalSecrets sim) emptyWorld))) = [Some st] \<and>
      findPodInPodStats (Some st) (Some p) = Returns (i, None)) \<and>
   passes (run (TestOptionalConfigMaps sim) emptyWorld) \<and>
   (\<exists>p cerr st i.
      created (trace (snd (run (TestOptionalConfigMaps sim) emptyWorld))) = [(Some p, cerr)] \<and>
      EvWaitUntilPodReady (Namespace p) (Name p) None
        \<in> set (trace (snd (run (TestOptionalConfigMaps sim) emptyWorld))) \<and>
      snapshots (trace (snd (run (TestOptionalConfigMaps sim) emptyWorld))) = [Some st] \<and>
      findPodInPodStats (Some st) (Some p) = Returns (i, None))"
  using optional_reference_is_tolerated_and_presence_asserted
      [where f = sim and w = emptyWorld and v = emptyWorld
        and objS = "optionalSecretsPod\<lparr>UID := []\<rparr>" and podS = "Some optionalSecretsPod"
        and cerrS = None
        and objC = "optionalConfigMapsPod\<lparr>UID := []\<rparr>" and podC = "Some optionalConfigMapsPod"
        and cerrC = None
        and ?rs0.0 = "[]" and cms = "[]" and secs = "[]"
        and obj = "optionalSecretsPod\<lparr>UID := []\<rparr>"
        and pod = "Some (optionalSecretsPod\<lparr>UID := ''x''\<rparr>)" and err = None
        and ?w1.0 = "snd (CreatePod sim (Some (optionalSecretsPod\<lparr>UID := []\<rparr>))
             (serveAll [] (startWorld [] [])))"]
    sim_optional_runs sim_unblocked_creation
  by (simp add: prod_eq_iff)

theorem container_count_is_not_compared:
  "passes (run (TestOptionalSecrets hollow) emptyWorld) \<and>
   created (trace (snd (run (TestOptionalSecrets hollow) emptyWorld)))
     = [(Some optionalSecretsPod, None)] \<and>
   snapshots (trace (snd (run (TestOptionalSecrets hollow) emptyWorld)))
     = [Some (summaryOf [(podStatsOf optionalSecretsPod)\<lparr>stats_Containers := []\<rparr>])] \<and>
   passes (run (TestOptionalConfigMaps hollow) emptyWorld) \<and>
   created (trace (snd (run (TestOptionalConfigMaps hollow) emptyWorld)))
     = [(Some optionalConfigMapsPod, None)] \<and>
   snapshots (trace (snd (run (TestOptionalConfigMaps hollow) emptyWorld)))
     = [Some (summaryOf [(podStatsOf optionalConfigMapsPod)\<lparr>stats_Containers := []\<rparr>])] \<and>
   length (Containers (Spec optionalSecretsPod)) = 1 \<and>
   length (Containers (Spec optionalConfigMapsPod)) = 1 \<and>
   length (stats_Containers ((podStatsOf optionalSecretsPod)\<lparr>stats_Containers := []\<rparr>)) = 0 \<and>
   \<not> passes (run (TestGetStatsSummary hollow) emptyWorld)"
  by code_simp


end
